theory Spec2Isabelle
  imports Complex_Main "HOL-Library.List_Lexorder" "HOL-Library.Product_Lexorder"
begin

section \<open>Python values as they reach the server\<close>

text \<open>
  The server (\<^verbatim>\<open>server/app.py\<close>) works on parsed JSON.  A Python \<^verbatim>\<open>str\<close> is a
  sequence of code points, so it is modelled as a list of natural numbers; \<open>U\<close> embeds an
  ASCII literal.  A \<^verbatim>\<open>dict\<close> is an association list in insertion order.  A \<^verbatim>\<open>float\<close> is
  only ever carried around and tested for its type, never computed with: a finite one is
  held as a rational, and the two infinities are values of their own, because
  \<^verbatim>\<open>json.loads\<close> yields them for a number out of range such as \<^verbatim>\<open>1e999\<close>.  The value
  \<^verbatim>\<open>nan\<close>, which only the token \<^verbatim>\<open>NaN\<close> yields and which is unequal to itself, is outside
  the model.
\<close>

type_synonym pystr = "nat list"

datatype pyfloat = Finite rat | PosInf | NegInf

definition U :: "string \<Rightarrow> pystr" where
  "U s = map of_char s"

datatype json =
    JNull
  | JBool bool
  | JInt int
  | JFloat pyfloat
  | JStr pystr
  | JArr "json list"
  | JObj "(pystr \<times> json) list"

type_synonym dict = "(pystr \<times> json) list"

text \<open>\<^verbatim>\<open>d.get(k)\<close>: the value stored under a key, if any.\<close>

fun dict_get :: "dict \<Rightarrow> pystr \<Rightarrow> json option" where
  "dict_get [] k = None"
| "dict_get ((k', v) # d) k = (if k' = k then Some v else dict_get d k)"

text \<open>\<^verbatim>\<open>d[k] = v\<close>: an existing key keeps its position, a new key goes to the end.\<close>

fun dict_set :: "pystr \<Rightarrow> json \<Rightarrow> dict \<Rightarrow> dict" where
  "dict_set k v [] = [(k, v)]"
| "dict_set k v ((k', v') # d) = (if k' = k then (k, v) # d else (k', v') # dict_set k v d)"

text \<open>\<^verbatim>\<open>isinstance(x, dict)\<close>, \<^verbatim>\<open>isinstance(x, int)\<close> and \<^verbatim>\<open>isinstance(x, (int, float))\<close>.
  In Python \<^verbatim>\<open>bool\<close> is a subclass of \<^verbatim>\<open>int\<close>, so the booleans pass both numeric tests.\<close>

fun is_dict :: "json \<Rightarrow> bool" where
  "is_dict (JObj d) = True"
| "is_dict _ = False"

fun is_int :: "json \<Rightarrow> bool" where
  "is_int (JInt n) = True"
| "is_int (JBool b) = True"
| "is_int _ = False"

fun is_number :: "json \<Rightarrow> bool" where
  "is_number (JInt n) = True"
| "is_number (JBool b) = True"
| "is_number (JFloat x) = True"
| "is_number _ = False"

text \<open>Truth value of a Python object in \<^verbatim>\<open>if x\<close>, \<^verbatim>\<open>x or y\<close>.\<close>

fun truthy :: "json \<Rightarrow> bool" where
  "truthy JNull = False"
| "truthy (JBool b) = b"
| "truthy (JInt n) = (n \<noteq> 0)"
| "truthy (JFloat x) = (x \<noteq> Finite 0)"
| "truthy (JStr s) = (s \<noteq> [])"
| "truthy (JArr xs) = (xs \<noteq> [])"
| "truthy (JObj d) = (d \<noteq> [])"

text \<open>
  \<^verbatim>\<open>d.get(k)\<close> read as a Python value: \<^verbatim>\<open>None\<close> when the key is missing.
\<close>

definition pyget :: "dict \<Rightarrow> pystr \<Rightarrow> json" where
  "pyget d k = (case dict_get d k of Some v \<Rightarrow> v | None \<Rightarrow> JNull)"

text \<open>
  \<^verbatim>\<open>d.setdefault(k, default)\<close>: the value now stored under the key, and the dict after
  the call.
\<close>

definition setdefault :: "dict \<Rightarrow> pystr \<Rightarrow> json \<Rightarrow> json \<times> dict" where
  "setdefault d k dflt =
     (case dict_get d k of Some v \<Rightarrow> (v, d) | None \<Rightarrow> (dflt, dict_set k dflt d))"

text \<open>The exceptions that the modelled code can raise.  \<open>External\<close> is any exception of
  an outside call (generation service, file system), with its \<^verbatim>\<open>str(e)\<close>.\<close>

datatype exn =
    AttributeError
  | TypeError
  | KeyError
  | ValueError
  | UnicodeEncodeError
  | FileNotFoundError pystr
  | External pystr

text \<open>
  \<^verbatim>\<open>str.strip()\<close> removes leading and trailing white space, which for Python is the set
  of code points below.
\<close>

definition is_space :: "nat \<Rightarrow> bool" where
  "is_space c \<longleftrightarrow>
     (9 \<le> c \<and> c \<le> 13) \<or> (28 \<le> c \<and> c \<le> 32) \<or> c = 133 \<or> c = 160 \<or> c = 5760 \<or>
     (8192 \<le> c \<and> c \<le> 8202) \<or> c = 8232 \<or> c = 8233 \<or> c = 8239 \<or> c = 8287 \<or> c = 12288"

definition py_strip :: "pystr \<Rightarrow> pystr" where
  "py_strip s = rev (dropWhile is_space (rev (dropWhile is_space s)))"

text \<open>
  \<^verbatim>\<open>str(x or "").strip()\<close>.  Python's \<^verbatim>\<open>str\<close> of a value that is not a string (the
  decimal form of a number, the \<^verbatim>\<open>repr\<close> of a list) is a builtin outside the repository
  and is the parameter \<open>str_of\<close>.
\<close>

definition str_or_empty :: "(json \<Rightarrow> pystr) \<Rightarrow> json \<Rightarrow> pystr" where
  "str_or_empty str_of v =
     py_strip (if truthy v then (case v of JStr s \<Rightarrow> s | _ \<Rightarrow> str_of v) else [])"

section \<open>TemplateMerger\<close>

text \<open>
  \<^verbatim>\<open>deep_copy_json(data) = json.loads(json.dumps(data, ensure_ascii=False))\<close>: the value
  is rebuilt node by node.  \<open>copy_value\<close> is the round trip of one value,
  \<open>deep_copy_json\<close> that of a dict.  The text is a Python \<^verbatim>\<open>str\<close> and is never encoded, so
  a lone surrogate passes through; \<^verbatim>\<open>json.dumps\<close> here allows an infinite float, writes it
  as \<^verbatim>\<open>Infinity\<close>, and \<^verbatim>\<open>json.loads\<close> reads that back.
\<close>

fun copy_value :: "json \<Rightarrow> json" where
  "copy_value JNull = JNull"
| "copy_value (JBool b) = JBool b"
| "copy_value (JInt n) = JInt n"
| "copy_value (JFloat x) = JFloat x"
| "copy_value (JStr s) = JStr s"
| "copy_value (JArr xs) = JArr (map copy_value xs)"
| "copy_value (JObj d) = JObj (map (\<lambda>kv. (fst kv, copy_value (snd kv))) d)"

definition deep_copy_json :: "dict \<Rightarrow> dict" where
  "deep_copy_json d = map (\<lambda>kv. (fst kv, copy_value (snd kv))) d"

text \<open>
  The inner \<^verbatim>\<open>_merge(dst, src)\<close> of \<^verbatim>\<open>merge_with_template\<close>: for each item of \<^verbatim>\<open>src\<close> in
  order, recurse when both sides hold a dict, overwrite otherwise.
\<close>

function merge_into :: "dict \<Rightarrow> dict \<Rightarrow> dict" where
  "merge_into dst [] = dst"
| "merge_into dst ((key, val) # src) =
     merge_into
       (case val of
          JObj sv \<Rightarrow>
            (case dict_get dst key of
               Some (JObj dv) \<Rightarrow> dict_set key (JObj (merge_into dv sv)) dst
             | _ \<Rightarrow> dict_set key val dst)
        | _ \<Rightarrow> dict_set key val dst)
       src"
  by pat_completeness auto
termination
  by (relation "measure (\<lambda>(dst, src). size_list (size_prod (\<lambda>_. 0) size) src)") auto

definition merge_with_template :: "dict \<Rightarrow> json \<Rightarrow> dict" where
  "merge_with_template template_obj overrides =
     (let base = deep_copy_json template_obj in
      case overrides of
        JObj src \<Rightarrow> merge_into base src
      | _ \<Rightarrow> base)"

text \<open>
  A key path names a key at some nesting depth: \<open>[a, b]\<close> is key \<open>b\<close> of the object stored
  under key \<open>a\<close>.  \<open>has_key_path d p\<close> says that the path is present in \<open>d\<close>.
\<close>

fun has_key_path :: "dict \<Rightarrow> pystr list \<Rightarrow> bool" where
  "has_key_path d [] = True"
| "has_key_path d [k] = (dict_get d k \<noteq> None)"
| "has_key_path d (k # ks) =
     (case dict_get d k of Some (JObj d') \<Rightarrow> has_key_path d' ks | _ \<Rightarrow> False)"

text \<open>
  \<open>replaced_above ov p\<close>: the overrides \<open>ov\<close> store a value that is not an object at a
  proper ancestor of the key path \<open>p\<close>.  Such an entry makes \<^verbatim>\<open>_merge\<close> overwrite the
  whole template subtree below that ancestor.
\<close>

fun replaced_above :: "dict \<Rightarrow> pystr list \<Rightarrow> bool" where
  "replaced_above ov [] = False"
| "replaced_above ov [k] = False"
| "replaced_above ov (k # ks) =
     list_ex (\<lambda>kv. fst kv = k \<and>
        (case snd kv of JObj d' \<Rightarrow> replaced_above d' ks | _ \<Rightarrow> True)) ov"

section \<open>DimensionModeEnforcer\<close>

definition VALID_DIMENSION_MODES :: "pystr list" where
  "VALID_DIMENSION_MODES = [U ''3D'', U ''2D_extruded'']"

definition normalize_dimension_mode :: "pystr option \<Rightarrow> pystr option" where
  "normalize_dimension_mode raw =
     (case raw of
        None \<Rightarrow> None
      | Some r \<Rightarrow>
          (let value = py_strip r in
           if value \<in> set VALID_DIMENSION_MODES then Some value else None))"

text \<open>
  \<^verbatim>\<open>max(lo, min(nz, 10))\<close> for an \<^verbatim>\<open>nz\<close> that passed \<^verbatim>\<open>isinstance(nz, int)\<close>.  Both
  builtins return the first of equal arguments, so a boolean \<^verbatim>\<open>nz\<close> gives the integer
  \<^verbatim>\<open>lo\<close>; the result is always a plain integer.
\<close>

fun int_of :: "json \<Rightarrow> int" where
  "int_of (JInt n) = n"
| "int_of (JBool b) = (if b then 1 else 0)"
| "int_of _ = 0"

definition clamp_nz :: "int \<Rightarrow> json \<Rightarrow> json" where
  "clamp_nz lo nz = JInt (max lo (min (int_of nz) 10))"

text \<open>
  \<^verbatim>\<open>(template_obj.get("meshing") or {}).get("blockMesh", {}).get(name, {})\<close>.  A
  \<^verbatim>\<open>.get\<close> on a value that is not a dict raises \<^verbatim>\<open>AttributeError\<close>.
\<close>

definition template_section :: "dict \<Rightarrow> pystr \<Rightarrow> exn + json" where
  "template_section template_obj name =
     (case (let m = pyget template_obj (U ''meshing'') in if truthy m then m else JObj []) of
        JObj meshing \<Rightarrow>
          (case (case dict_get meshing (U ''blockMesh'') of Some b \<Rightarrow> b | None \<Rightarrow> JObj []) of
             JObj block \<Rightarrow>
               Inr (case dict_get block name of Some g \<Rightarrow> g | None \<Rightarrow> JObj [])
           | _ \<Rightarrow> Inl AttributeError)
      | _ \<Rightarrow> Inl AttributeError)"

text \<open>
  The nested dicts of the intent are mutated in place.  In the model the current
  \<^verbatim>\<open>meshing\<close> and \<^verbatim>\<open>blockMesh\<close> dicts are threaded through and \<open>commit\<close> writes them
  back, which is the intent as it stands when the function returns, normally or after
  the \<^verbatim>\<open>except Exception\<close> that swallows a failure.
\<close>

definition commit :: "dict \<Rightarrow> dict \<Rightarrow> dict \<Rightarrow> dict" where
  "commit intent_obj meshing block =
     dict_set (U ''meshing'') (JObj (dict_set (U ''blockMesh'') (JObj block) meshing)) intent_obj"

text \<open>The \<^verbatim>\<open>2D_extruded\<close> branch of \<^verbatim>\<open>enforce_dimension_mode\<close>: thickness, then cell count.\<close>

definition enforce_thickness :: "dict \<Rightarrow> json \<Rightarrow> exn + dict" where
  "enforce_thickness geometry template_geo =
     (if is_number (pyget geometry (U ''thickness_2d_m'')) then Inr geometry
      else
        (case template_geo of
           JObj tg \<Rightarrow>
             (let fallback = pyget tg (U ''thickness_2d_m'');
                  fallback = (if is_number fallback then fallback
                              else pyget geometry (U ''height_m''));
                  fallback = (if is_number fallback then fallback else JFloat (Finite (2 / 1000)))
              in Inr (dict_set (U ''thickness_2d_m'') fallback geometry))
         | _ \<Rightarrow> Inl AttributeError))"

definition enforce_nz :: "json \<Rightarrow> json \<Rightarrow> exn + dict" where
  "enforce_nz cells_v template_cells =
     (case cells_v of
        JObj cells \<Rightarrow>
          (let nz = pyget cells (U ''nz'') in
           if is_int nz then Inr (dict_set (U ''nz'') (clamp_nz 1 nz) cells)
           else
             (case template_cells of
                JObj tc \<Rightarrow>
                  (let fallback_nz = pyget tc (U ''nz'') in
                   Inr (if is_int fallback_nz then dict_set (U ''nz'') fallback_nz cells
                        else cells))
              | _ \<Rightarrow> Inl AttributeError))
      | _ \<Rightarrow> Inl AttributeError)"

text \<open>The \<^verbatim>\<open>3D\<close> branch: the height.\<close>

definition enforce_height :: "dict \<Rightarrow> json \<Rightarrow> exn + dict" where
  "enforce_height geometry template_geo =
     (if is_number (pyget geometry (U ''height_m'')) then Inr geometry
      else
        (case template_geo of
           JObj tg \<Rightarrow>
             (let fallback = pyget tg (U ''height_m'');
                  fallback = (if is_number fallback then fallback
                              else pyget geometry (U ''thickness_2d_m''));
                  fallback = (if is_number fallback then fallback else JFloat (Finite (2 / 1000)))
              in Inr (dict_set (U ''height_m'') fallback geometry))
         | _ \<Rightarrow> Inl AttributeError))"

text \<open>
  \<^verbatim>\<open>enforce_dimension_mode\<close> from the assignment of \<^verbatim>\<open>geometry["dimension_mode"]\<close> on.
  Every \<open>Inl\<close> is an exception caught by the handler: the function returns with what
  has been written so far.
\<close>

definition enforce_geometry ::
  "pystr \<Rightarrow> dict \<Rightarrow> dict \<Rightarrow> dict \<Rightarrow> dict \<Rightarrow> dict \<Rightarrow> dict" where
  "enforce_geometry mode intent_obj meshing block geometry template_obj =
     (let geometry1 = dict_set (U ''dimension_mode'') (JStr mode) geometry;
          block1 = dict_set (U ''geometry'') (JObj geometry1) block
      in
      case template_section template_obj (U ''geometry'') of
        Inl e \<Rightarrow> commit intent_obj meshing block1
      | Inr template_geo \<Rightarrow>
          (case template_section template_obj (U ''cells'') of
             Inl e \<Rightarrow> commit intent_obj meshing block1
           | Inr template_cells \<Rightarrow>
               (let (cells_v, block2) = setdefault block1 (U ''cells'') (JObj []) in
                if mode = U ''2D_extruded'' then
                  (case enforce_thickness geometry1 template_geo of
                     Inl e \<Rightarrow> commit intent_obj meshing block2
                   | Inr geometry2 \<Rightarrow>
                       (let block3 = dict_set (U ''geometry'') (JObj geometry2) block2 in
                        case enforce_nz cells_v template_cells of
                          Inl e \<Rightarrow> commit intent_obj meshing block3
                        | Inr cells1 \<Rightarrow>
                            commit intent_obj meshing
                              (dict_set (U ''cells'') (JObj cells1) block3)))
                else
                  (case enforce_height geometry1 template_geo of
                     Inl e \<Rightarrow> commit intent_obj meshing block2
                   | Inr geometry2 \<Rightarrow>
                       commit intent_obj meshing
                         (dict_set (U ''geometry'') (JObj geometry2) block2)))))"

text \<open>
  \<^verbatim>\<open>enforce_dimension_mode(intent_obj, dimension_mode, template_obj)\<close> returns nothing and
  never raises; the model returns the intent as the call leaves it.
\<close>

definition enforce_dimension_mode :: "dict \<Rightarrow> pystr option \<Rightarrow> dict \<Rightarrow> dict" where
  "enforce_dimension_mode intent_obj dimension_mode template_obj =
     (case normalize_dimension_mode dimension_mode of
        None \<Rightarrow> intent_obj
      | Some mode \<Rightarrow>
          (let (meshing_v, intent1) = setdefault intent_obj (U ''meshing'') (JObj []) in
           case meshing_v of
             JObj meshing \<Rightarrow>
               (let (block_v, meshing1) = setdefault meshing (U ''blockMesh'') (JObj []) in
                case block_v of
                  JObj block \<Rightarrow>
                    (let (geometry_v, block1) = setdefault block (U ''geometry'') (JObj []) in
                     case geometry_v of
                       JObj geometry \<Rightarrow>
                         enforce_geometry mode intent1 meshing1 block1 geometry template_obj
                     | _ \<Rightarrow> commit intent1 meshing1 block1)
                | _ \<Rightarrow> dict_set (U ''meshing'') (JObj meshing1) intent1)
           | _ \<Rightarrow> intent1))"

text \<open>
  \<^verbatim>\<open>apply_dimension_mode_to_template\<close>: the same walk on a deep copy of the template,
  with the template's own values as the only fallbacks.
\<close>

definition prepare_thickness :: "dict \<Rightarrow> dict" where
  "prepare_thickness geometry =
     (if is_number (pyget geometry (U ''thickness_2d_m'')) then geometry
      else
        (let fallback = pyget geometry (U ''height_m'');
             fallback = (if is_number fallback then fallback else JFloat (Finite (2 / 1000)))
         in dict_set (U ''thickness_2d_m'') fallback geometry))"

definition prepare_nz :: "json \<Rightarrow> exn + dict" where
  "prepare_nz cells_v =
     (case cells_v of
        JObj cells \<Rightarrow>
          (let nz = pyget cells (U ''nz'') in
           Inr (if is_int nz then dict_set (U ''nz'') (clamp_nz 2 nz) cells
                else dict_set (U ''nz'') (JInt 4) cells))
      | _ \<Rightarrow> Inl AttributeError)"

definition prepare_height :: "dict \<Rightarrow> dict" where
  "prepare_height geometry =
     (if is_number (pyget geometry (U ''height_m'')) then geometry
      else
        (let fallback = pyget geometry (U ''thickness_2d_m'') in
         if is_number fallback then dict_set (U ''height_m'') fallback geometry
         else geometry))"

definition prepare_geometry :: "pystr \<Rightarrow> dict \<Rightarrow> dict \<Rightarrow> dict \<Rightarrow> dict \<Rightarrow> dict" where
  "prepare_geometry mode base meshing block geometry =
     (let geometry1 = dict_set (U ''dimension_mode'') (JStr mode) geometry;
          block1 = dict_set (U ''geometry'') (JObj geometry1) block;
          (cells_v, block2) = setdefault block1 (U ''cells'') (JObj [])
      in
      if mode = U ''2D_extruded'' then
        (let block3 = dict_set (U ''geometry'') (JObj (prepare_thickness geometry1)) block2 in
         case prepare_nz cells_v of
           Inl e \<Rightarrow> commit base meshing block3
         | Inr cells1 \<Rightarrow> commit base meshing (dict_set (U ''cells'') (JObj cells1) block3))
      else
        commit base meshing (dict_set (U ''geometry'') (JObj (prepare_height geometry1)) block2))"

definition apply_dimension_mode_to_template :: "dict \<Rightarrow> pystr option \<Rightarrow> dict" where
  "apply_dimension_mode_to_template template_obj dimension_mode =
     (let base = deep_copy_json template_obj in
      case normalize_dimension_mode dimension_mode of
        None \<Rightarrow> base
      | Some mode \<Rightarrow>
          (let (meshing_v, base1) = setdefault base (U ''meshing'') (JObj []) in
           case meshing_v of
             JObj meshing \<Rightarrow>
               (let (block_v, meshing1) = setdefault meshing (U ''blockMesh'') (JObj []) in
                case block_v of
                  JObj block \<Rightarrow>
                    (let (geometry_v, block1) = setdefault block (U ''geometry'') (JObj []) in
                     case geometry_v of
                       JObj geometry \<Rightarrow> prepare_geometry mode base1 meshing1 block1 geometry
                     | _ \<Rightarrow> commit base1 meshing1 block1)
                | _ \<Rightarrow> dict_set (U ''meshing'') (JObj meshing1) base1)
           | _ \<Rightarrow> base1))"

text \<open>
  \<open>value_at d p\<close> is the value stored at a key path, if the path leads through objects.
  The two paths that dimension-mode enforcement is about:
\<close>

fun value_at :: "dict \<Rightarrow> pystr list \<Rightarrow> json option" where
  "value_at d [] = Some (JObj d)"
| "value_at d [k] = dict_get d k"
| "value_at d (k # ks) =
     (case dict_get d k of Some (JObj d') \<Rightarrow> value_at d' ks | _ \<Rightarrow> None)"

definition thickness_path :: "pystr list" where
  "thickness_path = [U ''meshing'', U ''blockMesh'', U ''geometry'', U ''thickness_2d_m'']"

definition nz_path :: "pystr list" where
  "nz_path = [U ''meshing'', U ''blockMesh'', U ''cells'', U ''nz'']"

text \<open>The value at a path is numeric; the value at a path is an integer in \<open>[lo, hi]\<close>.\<close>

definition numeric_at :: "dict \<Rightarrow> pystr list \<Rightarrow> bool" where
  "numeric_at d p = (case value_at d p of Some v \<Rightarrow> is_number v | None \<Rightarrow> False)"

definition int_in_range_at :: "dict \<Rightarrow> pystr list \<Rightarrow> int \<Rightarrow> int \<Rightarrow> bool" where
  "int_in_range_at d p lo hi =
     (case value_at d p of Some (JInt n) \<Rightarrow> lo \<le> n \<and> n \<le> hi | _ \<Rightarrow> False)"

text \<open>
  Shapes on which the walk through \<^verbatim>\<open>meshing.blockMesh.{geometry, cells}\<close> raises nothing:
  each section of the intent is a dict or is missing (\<^verbatim>\<open>setdefault\<close> then creates it), and
  the template's \<^verbatim>\<open>geometry\<close> and \<^verbatim>\<open>cells\<close> sections are read as dicts.
\<close>

definition absent_or_dict :: "dict \<Rightarrow> pystr \<Rightarrow> bool" where
  "absent_or_dict d k = (case dict_get d k of None \<Rightarrow> True | Some v \<Rightarrow> is_dict v)"

definition intent_sections_ok :: "dict \<Rightarrow> bool" where
  "intent_sections_ok intent_obj =
     (case dict_get intent_obj (U ''meshing'') of
        None \<Rightarrow> True
      | Some (JObj meshing) \<Rightarrow>
          (case dict_get meshing (U ''blockMesh'') of
             None \<Rightarrow> True
           | Some (JObj block) \<Rightarrow>
               absent_or_dict block (U ''geometry'') \<and> absent_or_dict block (U ''cells'')
           | Some _ \<Rightarrow> False)
      | Some _ \<Rightarrow> False)"

definition template_dict_section :: "dict \<Rightarrow> pystr \<Rightarrow> dict option" where
  "template_dict_section template_obj name =
     (case template_section template_obj name of Inr (JObj d) \<Rightarrow> Some d | _ \<Rightarrow> None)"

definition template_sections_ok :: "dict \<Rightarrow> bool" where
  "template_sections_ok template_obj \<longleftrightarrow>
     template_dict_section template_obj (U ''geometry'') \<noteq> None \<and>
     template_dict_section template_obj (U ''cells'') \<noteq> None"

text \<open>The template's cell count and thickness, \<^verbatim>\<open>None\<close> when missing.\<close>

definition template_nz :: "dict \<Rightarrow> json" where
  "template_nz template_obj =
     (case template_dict_section template_obj (U ''cells'') of
        Some tc \<Rightarrow> pyget tc (U ''nz'') | None \<Rightarrow> JNull)"

definition template_thickness :: "dict \<Rightarrow> json" where
  "template_thickness template_obj =
     (case template_dict_section template_obj (U ''geometry'') of
        Some tg \<Rightarrow> pyget tg (U ''thickness_2d_m'') | None \<Rightarrow> JNull)"

definition height_path :: "pystr list" where
  "height_path = [U ''meshing'', U ''blockMesh'', U ''geometry'', U ''height_m'']"

definition value_or_none :: "dict \<Rightarrow> pystr list \<Rightarrow> json" where
  "value_or_none d p = (case value_at d p of Some v \<Rightarrow> v | None \<Rightarrow> JNull)"

text \<open>
  The fallback chain in the words of the specification, for an intent without a
  thickness: the template's value, then the paired height value, then the literal
  default \<^verbatim>\<open>0.002\<close>.
\<close>

definition thickness_fallback_chain :: "dict \<Rightarrow> dict \<Rightarrow> json" where
  "thickness_fallback_chain intent_obj template_obj =
     (if is_number (template_thickness template_obj) then template_thickness template_obj
      else if is_number (value_or_none intent_obj height_path)
        then value_or_none intent_obj height_path
      else JFloat (Finite (2 / 1000)))"

section \<open>ParameterCollector: normalising the missing-parameter list\<close>

text \<open>The two-character default label (code points U+53C2, U+6570) used when an entry
  names neither a label nor a group.\<close>

definition default_label :: pystr where
  "default_label = [21442, 25968]"

text \<open>
  The \<^verbatim>\<open>suggested\<close> record of one entry.  A dict contributes a stripped \<^verbatim>\<open>text\<close>, the
  numeric \<^verbatim>\<open>value\<close> and \<^verbatim>\<open>si\<close>, and a stripped \<^verbatim>\<open>unit\<close>, each only when present; a
  string contributes its stripped text; anything else contributes nothing.
\<close>

definition keep_number :: "dict \<Rightarrow> pystr \<Rightarrow> dict \<Rightarrow> dict" where
  "keep_number suggested_raw num_key suggested =
     (let val = pyget suggested_raw num_key in
      if is_number val then dict_set num_key val suggested else suggested)"

definition normalize_suggested :: "(json \<Rightarrow> pystr) \<Rightarrow> json \<Rightarrow> dict" where
  "normalize_suggested str_of suggested_raw =
     (case suggested_raw of
        JObj sr \<Rightarrow>
          (let text = str_or_empty str_of (pyget sr (U ''text''));
               s1 = (if text \<noteq> [] then dict_set (U ''text'') (JStr text) [] else []);
               s2 = keep_number sr (U ''value'') s1;
               s3 = keep_number sr (U ''si'') s2;
               unit = str_or_empty str_of (pyget sr (U ''unit''))
           in if unit \<noteq> [] then dict_set (U ''unit'') (JStr unit) s3 else s3)
      | JStr s \<Rightarrow>
          (let text = py_strip s in
           if text \<noteq> [] then dict_set (U ''text'') (JStr text) [] else [])
      | _ \<Rightarrow> [])"

text \<open>The body of the loop of \<^verbatim>\<open>normalize_missing_parameters\<close> for an item that is a dict.\<close>

definition normalize_item :: "(json \<Rightarrow> pystr) \<Rightarrow> dict \<Rightarrow> dict" where
  "normalize_item str_of item =
     (let label = str_or_empty str_of (pyget item (U ''label''));
          label = (if label \<noteq> [] then label
                   else (let group = str_or_empty str_of (pyget item (U ''group'')) in
                         if group \<noteq> [] then group else default_label));
          detail = str_or_empty str_of (pyget item (U ''detail''));
          path = str_or_empty str_of (pyget item (U ''path''));
          suggested = normalize_suggested str_of (pyget item (U ''suggested''));
          norm = [(U ''label'', JStr label), (U ''detail'', JStr detail), (U ''path'', JStr path)]
      in if suggested \<noteq> [] then dict_set (U ''suggested'') (JObj suggested) norm else norm)"

text \<open>The loop: an item that is not a dict is skipped (\<^verbatim>\<open>continue\<close>).\<close>

fun normalize_items :: "(json \<Rightarrow> pystr) \<Rightarrow> json list \<Rightarrow> dict list" where
  "normalize_items str_of [] = []"
| "normalize_items str_of (JObj item # items) =
     normalize_item str_of item # normalize_items str_of items"
| "normalize_items str_of (_ # items) = normalize_items str_of items"

definition normalize_missing_parameters :: "(json \<Rightarrow> pystr) \<Rightarrow> json \<Rightarrow> dict list" where
  "normalize_missing_parameters str_of items =
     (case items of JArr xs \<Rightarrow> normalize_items str_of xs | _ \<Rightarrow> [])"

text \<open>
  The canonical record shape, as the code produces it: a non-empty string \<^verbatim>\<open>label\<close>,
  string \<^verbatim>\<open>detail\<close> and \<^verbatim>\<open>path\<close>, and a \<^verbatim>\<open>suggested\<close> object that is left out when empty
  and otherwise holds only the keys \<^verbatim>\<open>text\<close>, \<^verbatim>\<open>value\<close>, \<^verbatim>\<open>si\<close>, \<^verbatim>\<open>unit\<close>, with string
  text and unit and numeric value and si.
\<close>

definition is_str :: "json \<Rightarrow> bool" where
  "is_str v = (case v of JStr s \<Rightarrow> True | _ \<Rightarrow> False)"




section \<open>SchemaValidator\<close>

text \<open>
  The validator itself (\<^verbatim>\<open>jsonschema.Draft202012Validator\<close>) is a library outside the
  repository.  Its \<^verbatim>\<open>iter_errors\<close> is a parameter of the model: for a schema and an
  instance it yields the validation errors, each with the path of the offending element
  in the instance (a sequence of property names and array indices) and a message.
\<close>

datatype part = Idx nat | Key pystr

record verror =
  err_path :: "part list"
  err_message :: pystr

text \<open>
  \<^verbatim>\<open>sorted(..., key=lambda e: e.path)\<close> compares the paths with Python's \<open><\<close> on
  sequences: the first differing elements decide, a proper prefix is smaller.  Two
  integers and two strings compare as usual (strings by code points); an integer against
  a string raises \<^verbatim>\<open>TypeError\<close>.
\<close>

fun part_lt :: "part \<Rightarrow> part \<Rightarrow> exn + bool" where
  "part_lt (Idx i) (Idx j) = Inr (i < j)"
| "part_lt (Key a) (Key b) = Inr (a < b)"
| "part_lt _ _ = Inl TypeError"

fun path_lt :: "part list \<Rightarrow> part list \<Rightarrow> exn + bool" where
  "path_lt [] [] = Inr False"
| "path_lt [] (q # qs) = Inr True"
| "path_lt (p # ps) [] = Inr False"
| "path_lt (p # ps) (q # qs) = (if p = q then path_lt ps qs else part_lt p q)"

text \<open>
  \<^verbatim>\<open>sorted\<close> is stable and only uses \<open><\<close>.  It is modelled as the stable insertion sort,
  which raises when a comparison it makes raises.  Whenever all the paths are pairwise
  comparable, every stable comparison sort, Python's included, returns this same list.
\<close>

fun insert_sorted :: "verror \<Rightarrow> verror list \<Rightarrow> exn + verror list" where
  "insert_sorted x [] = Inr [x]"
| "insert_sorted x (y # ys) =
     (case path_lt (err_path y) (err_path x) of
        Inl e \<Rightarrow> Inl e
      | Inr True \<Rightarrow> (case insert_sorted x ys of Inl e \<Rightarrow> Inl e | Inr zs \<Rightarrow> Inr (y # zs))
      | Inr False \<Rightarrow> Inr (x # y # ys))"

fun py_sorted :: "verror list \<Rightarrow> exn + verror list" where
  "py_sorted [] = Inr []"
| "py_sorted (x # xs) =
     (case py_sorted xs of Inl e \<Rightarrow> Inl e | Inr ys \<Rightarrow> insert_sorted x ys)"

definition schema_validate ::
  "(json \<Rightarrow> dict \<Rightarrow> verror list) \<Rightarrow> dict \<Rightarrow> json \<Rightarrow> exn + verror list" where
  "schema_validate iter_errors instance schema = py_sorted (iter_errors schema instance)"

text \<open>\<^verbatim>\<open>f"[{part}]"\<close> for an index: its decimal digits.\<close>

function dec :: "nat \<Rightarrow> pystr" where
  "dec n = (if n < 10 then [48 + n] else dec (n div 10) @ [48 + n mod 10])"
  by pat_completeness auto
termination
  by (relation "measure id") auto

text \<open>\<^verbatim>\<open>format_schema_errors\<close>: the loop that renders a path, and the result dict.\<close>

fun format_parts :: "pystr \<Rightarrow> part list \<Rightarrow> pystr" where
  "format_parts path [] = path"
| "format_parts path (Idx i # ps) = format_parts (path @ U ''['' @ dec i @ U '']'') ps"
| "format_parts path (Key k # ps) = format_parts (path @ U ''.'' @ k) ps"

definition format_issue :: "verror \<Rightarrow> json" where
  "format_issue err =
     JObj [(U ''path'', JStr (format_parts (U ''$'') (err_path err))),
           (U ''message'', JStr (err_message err))]"

definition format_schema_errors :: "verror list \<Rightarrow> dict" where
  "format_schema_errors errors =
     (let issues = map format_issue errors in
      [(U ''valid'', JBool (length issues = 0)), (U ''issues'', JArr issues)])"






section \<open>Profile registry and the outside world\<close>

record profile_meta =
  meta_label :: pystr
  meta_family :: pystr
  meta_profile :: pystr
  meta_schema :: pystr
  meta_template :: pystr

definition SCHEMA_DIR :: pystr where
  "SCHEMA_DIR = U ''/opt/cfd-orchestrator/schemas/intent/''"

definition mesh_v1 :: profile_meta where
  "mesh_v1 =
     \<lparr>meta_label = U ''Fluent + '' @ [22806, 37096, 32593, 26684] @ U '' (.msh)'',
      meta_family = U ''fluent'',
      meta_profile = U ''CoolingPlate-Intent@mesh_v1.0'',
      meta_schema = SCHEMA_DIR @ U ''coolingplate_intent_mesh_v1.schema.json'',
      meta_template = SCHEMA_DIR @ U ''coolingplate_intent_mesh_v1.template.json''\<rparr>"

definition openfoam_bmesh_v1 :: profile_meta where
  "openfoam_bmesh_v1 =
     \<lparr>meta_label = U ''OpenFOAM + '' @ [33258, 21160] @ U '' blockMesh'',
      meta_family = U ''openfoam'',
      meta_profile = U ''CoolingPlate-OF-Intent@blockMesh_v1.0'',
      meta_schema = SCHEMA_DIR @ U ''coolingplate_intent_openfoam_bmesh_v1.schema.json'',
      meta_template = SCHEMA_DIR @ U ''coolingplate_intent_openfoam_bmesh_v1.template.json''\<rparr>"

definition PROFILE_REGISTRY :: "pystr \<Rightarrow> profile_meta option" where
  "PROFILE_REGISTRY slug =
     (if slug = U ''coolingplate-mesh-v1'' then Some mesh_v1
      else if slug = U ''coolingplate-openfoam-bmesh-v1'' then Some openfoam_bmesh_v1
      else None)"

definition DEFAULT_PROFILE_SLUG :: pystr where
  "DEFAULT_PROFILE_SLUG = U ''coolingplate-openfoam-bmesh-v1''"

text \<open>\<^verbatim>\<open>PROFILE_BY_NAME\<close>: from the profile identifier to the registry entry and its slug.\<close>

definition PROFILE_BY_NAME :: "pystr \<Rightarrow> (profile_meta \<times> pystr) option" where
  "PROFILE_BY_NAME name =
     (if name = meta_profile mesh_v1 then Some (mesh_v1, U ''coolingplate-mesh-v1'')
      else if name = meta_profile openfoam_bmesh_v1
        then Some (openfoam_bmesh_v1, U ''coolingplate-openfoam-bmesh-v1'')
      else None)"

text \<open>
  What the server reaches outside itself is gathered in an environment: the files behind
  \<^verbatim>\<open>load_json\<close>, the validator library, the three generation calls, Python's \<^verbatim>\<open>str\<close>,
  and the clock and random source behind a synthesised job id.  A generation call returns
  the parsed JSON, or fails with an exception whose \<^verbatim>\<open>str(e)\<close> is the \<open>Inl\<close> value.

  The environment also fixes the wording of the two human-readable summaries.  Their
  text is string formatting that no decision of the pipeline depends on; it reaches the
  client only as the \<^verbatim>\<open>human_summary\<close> string of a response.  The model leaves the
  wording open: \<open>collection_summary_text\<close> stands for the text that
  \<^verbatim>\<open>build_collection_summary(missing, summary_hint)\<close> returns, and
  \<open>multilayer_summary_text\<close> for the text that \<^verbatim>\<open>build_multilayer_summary(schema_initial,
  schema_final, review, final_intent, pipeline_status)\<close> returns when it returns.  Every
  property below is proved for all such functions, hence for the ones of the source.
\<close>

record env =
  py_str :: "json \<Rightarrow> pystr"
  load_json :: "pystr \<Rightarrow> exn + json"
  validator_errors :: "json \<Rightarrow> dict \<Rightarrow> verror list"
  call_llm_collect_parameters :: "pystr \<Rightarrow> dict \<Rightarrow> pystr option \<Rightarrow> pystr + json"
  call_reasoner_review :: "dict \<Rightarrow> profile_meta \<Rightarrow> json \<Rightarrow> pystr + json"
  call_llm_fill_fast ::
    "pystr \<Rightarrow> dict \<Rightarrow> pystr \<Rightarrow> pystr option \<Rightarrow> pystr option \<Rightarrow> pystr + json"
  synthesized_job_id :: pystr
  storage_writable :: bool
  collection_summary_text :: "dict list \<Rightarrow> pystr \<Rightarrow> pystr"
  multilayer_summary_text :: "dict \<Rightarrow> dict option \<Rightarrow> dict \<Rightarrow> dict \<Rightarrow> pystr \<Rightarrow> pystr"

text \<open>The calls to the generation services that a request makes, in order.\<close>

datatype call = CollectorCall dict | ReviewerCall dict

fun is_reviewer_call :: "call \<Rightarrow> bool" where
  "is_reviewer_call (ReviewerCall intent_obj) = True"
| "is_reviewer_call (CollectorCall template_obj) = False"

text \<open>
  How a request ends: a JSON response with status 200, the 400 response of a failed
  validation at the save entry point, an \<^verbatim>\<open>HTTPException\<close> with its status code, or an
  exception that no handler catches (the framework answers 500).
\<close>

datatype 'a outcome = Response 'a | Invalid "json list" | HTTPError nat | Crash exn

section \<open>Encoding a response\<close>

text \<open>
  Every endpoint answers with \<^verbatim>\<open>return JSONResponse(content)\<close>.  \<^verbatim>\<open>JSONResponse\<close> belongs
  to the web framework (Starlette), outside the repository.  Its constructor renders the
  body at once, as
  \<^verbatim>\<open>json.dumps(content, ensure_ascii=False, allow_nan=False, ...).encode("utf-8")\<close>,
  inside the handler, where nothing catches what it raises:

  \<^item> \<^verbatim>\<open>json.dumps\<close> with \<^verbatim>\<open>allow_nan=False\<close> raises \<^verbatim>\<open>ValueError\<close> on a float that is not
    finite;
  \<^item> \<^verbatim>\<open>encode("utf-8")\<close> then raises \<^verbatim>\<open>UnicodeEncodeError\<close> on a lone surrogate, a code
    point from U+D800 to U+DFFF, which \<^verbatim>\<open>json.loads\<close> admits in the escaped form
    \<^verbatim>\<open>"\ud800"\<close> and which a Python \<^verbatim>\<open>str\<close> can hold.
\<close>

definition lone_surrogate :: "nat \<Rightarrow> bool" where
  "lone_surrogate c \<longleftrightarrow> 55296 \<le> c \<and> c \<le> 57343"

text \<open>\<^verbatim>\<open>s.encode("utf-8")\<close> succeeds.\<close>

definition utf8_str :: "pystr \<Rightarrow> bool" where
  "utf8_str s = (\<not> list_ex lone_surrogate s)"

text \<open>No float in the value is infinite: \<^verbatim>\<open>json.dumps(v, allow_nan=False)\<close> succeeds.\<close>

fun finite_floats :: "json \<Rightarrow> bool" where
  "finite_floats (JFloat x) = (case x of Finite q \<Rightarrow> True | PosInf \<Rightarrow> False | NegInf \<Rightarrow> False)"
| "finite_floats (JArr xs) = list_all finite_floats xs"
| "finite_floats (JObj d) = list_all (\<lambda>kv. finite_floats (snd kv)) d"
| "finite_floats v = True"

text \<open>No string in the value, key or content, holds a lone surrogate: the dumped text
  can be encoded.\<close>

fun utf8_text :: "json \<Rightarrow> bool" where
  "utf8_text (JStr s) = utf8_str s"
| "utf8_text (JArr xs) = list_all utf8_text xs"
| "utf8_text (JObj d) = list_all (\<lambda>kv. utf8_str (fst kv) \<and> utf8_text (snd kv)) d"
| "utf8_text v = True"

text \<open>The constructor: the content when the body can be rendered, otherwise the exception.\<close>

definition JSONResponse :: "json \<Rightarrow> exn + json" where
  "JSONResponse content =
     (if \<not> finite_floats content then Inl ValueError
      else if \<not> utf8_text content then Inl UnicodeEncodeError
      else Inr content)"

text \<open>The content can be sent: it holds no infinite float and no lone surrogate.\<close>

definition encodable :: "json \<Rightarrow> bool" where
  "encodable content \<longleftrightarrow> finite_floats content \<and> utf8_text content"

text \<open>
  \<^verbatim>\<open>return JSONResponse(content)\<close> at the end of a handler: the request ends with the
  response \<open>r\<close> whose body is \<open>content\<close>, or with the exception of the constructor.
\<close>

definition send_json :: "json \<Rightarrow> 'a \<Rightarrow> 'a outcome" where
  "send_json content r = (case JSONResponse content of Inl ex \<Rightarrow> Crash ex | Inr body \<Rightarrow> Response r)"

section \<open>SummaryBuilder: where it can raise\<close>

text \<open>
  The wording of the summaries is left to the environment.  What matters to the
  pipeline is that \<^verbatim>\<open>summarize_intent\<close> reads the intent without type checks and raises
  on shapes it does not expect; no handler of the pipeline catches that.  The model keeps
  every statement of \<^verbatim>\<open>summarize_intent\<close> that can raise, in source order.
\<close>

definition get_or :: "dict \<Rightarrow> pystr \<Rightarrow> json \<Rightarrow> json" where
  "get_or d k dflt = (case dict_get d k of Some v \<Rightarrow> v | None \<Rightarrow> dflt)"

definition or_else :: "json \<Rightarrow> json \<Rightarrow> json" where
  "or_else x y = (if truthy x then x else y)"

text \<open>A value on which \<^verbatim>\<open>.get\<close> is called: anything but a dict has no such attribute.\<close>

definition need_dict :: "json \<Rightarrow> exn + dict" where
  "need_dict v = (case v of JObj d \<Rightarrow> Inr d | _ \<Rightarrow> Inl AttributeError)"

text \<open>\<^verbatim>\<open>x[0]\<close> for a truthy \<^verbatim>\<open>x\<close>.\<close>

definition first_item :: "json \<Rightarrow> exn + json" where
  "first_item x =
     (case x of
        JArr (y # ys) \<Rightarrow> Inr y
      | JStr (c # cs) \<Rightarrow> Inr (JStr [c])
      | JObj d \<Rightarrow> Inl KeyError
      | _ \<Rightarrow> Inl TypeError)"

text \<open>\<^verbatim>\<open>", ".join(x)\<close>: \<^verbatim>\<open>x\<close> must be iterable and yield strings only.\<close>

definition join_check :: "json \<Rightarrow> exn + unit" where
  "join_check x =
     (case x of
        JArr xs \<Rightarrow> (if list_all is_str xs then Inr () else Inl TypeError)
      | JStr s \<Rightarrow> Inr ()
      | JObj d \<Rightarrow> Inr ()
      | _ \<Rightarrow> Inl TypeError)"

definition starts_with :: "pystr \<Rightarrow> pystr \<Rightarrow> bool" where
  "starts_with s p = (take (length p) s = p)"

definition exn_bind :: "exn + 'a \<Rightarrow> ('a \<Rightarrow> exn + 'b) \<Rightarrow> exn + 'b" where
  "exn_bind m f = (case m of Inl e \<Rightarrow> Inl e | Inr x \<Rightarrow> f x)"

definition summarize_mesh :: "dict \<Rightarrow> pystr \<Rightarrow> exn + unit" where
  "summarize_mesh intent_obj prof =
     (if starts_with prof (U ''CoolingPlate-OF-Intent'') then
        exn_bind (need_dict (or_else (get_or intent_obj (U ''meshing'') (JObj [])) (JObj [])))
          (\<lambda>meshing.
             if get_or meshing (U ''mode'') (JStr []) = JStr (U ''blockMesh'') then
               exn_bind
                 (need_dict (or_else (get_or meshing (U ''blockMesh'') (JObj [])) (JObj [])))
                 (\<lambda>bm.
                    exn_bind
                      (need_dict (or_else (get_or bm (U ''geometry'') (JObj [])) (JObj [])))
                      (\<lambda>geo. Inr ()))
             else Inr ())
      else if starts_with prof (U ''CoolingPlate-Intent@mesh'') then
        exn_bind (need_dict (or_else (get_or intent_obj (U ''mesh'') (JObj [])) (JObj [])))
          (\<lambda>mesh. Inr ())
      else Inr ())"

text \<open>An inlet or outlet: \<^verbatim>\<open>(oc.get(name) or [{}])[0]\<close>, on which \<^verbatim>\<open>.get\<close> is then called.\<close>

definition first_port :: "dict \<Rightarrow> pystr \<Rightarrow> exn + dict" where
  "first_port oc name =
     exn_bind (first_item (or_else (pyget oc name) (JArr [JObj []]))) need_dict"

definition summarize_conditions :: "json \<Rightarrow> exn + unit" where
  "summarize_conditions oc_v =
     exn_bind (need_dict oc_v)
       (\<lambda>oc.
          exn_bind (first_port oc (U ''inlets''))
            (\<lambda>inlet.
               let Tin = get_or inlet (U ''T_in'') (JObj []) in
               exn_bind (if truthy Tin then need_dict Tin else Inr [])
                 (\<lambda>tin. exn_bind (first_port oc (U ''outlets'')) (\<lambda>outlet. Inr ()))))"

definition summarize_heat :: "json \<Rightarrow> exn + unit" where
  "summarize_heat tls =
     (if truthy tls then exn_bind (exn_bind (first_item tls) need_dict) (\<lambda>t0. Inr ())
      else Inr ())"

definition summarize_material :: "json \<Rightarrow> exn + unit" where
  "summarize_material mats_v =
     exn_bind (need_dict mats_v)
       (\<lambda>mats.
          exn_bind (need_dict (or_else (pyget mats (U ''fluid'')) (JObj [])))
            (\<lambda>fluid. Inr ()))"

definition summarize_accuracy :: "json \<Rightarrow> exn + unit" where
  "summarize_accuracy acc_v =
     exn_bind (need_dict acc_v)
       (\<lambda>acc.
          exn_bind
            (need_dict (or_else (get_or acc (U ''residual_targets'') (JObj [])) (JObj [])))
            (\<lambda>res. Inr ()))"

definition summarize_openfoam :: "dict \<Rightarrow> pystr \<Rightarrow> exn + unit" where
  "summarize_openfoam intent_obj prof =
     (if starts_with prof (U ''CoolingPlate-OF-Intent'') then
        exn_bind (need_dict (or_else (get_or intent_obj (U ''openfoam'') (JObj [])) (JObj [])))
          (\<lambda>of_d.
             exn_bind (need_dict (or_else (pyget of_d (U ''numerics'')) (JObj [])))
               (\<lambda>numerics. Inr ()))
      else Inr ())"

definition summarize_deliverables :: "json \<Rightarrow> exn + unit" where
  "summarize_deliverables deliv_v =
     exn_bind (need_dict deliv_v)
       (\<lambda>deliv.
          exn_bind (join_check (get_or deliv (U ''reports'') (JArr [])))
            (\<lambda>r. exn_bind (join_check (get_or deliv (U ''plots'') (JArr [])))
               (\<lambda>p. join_check (get_or deliv (U ''exports'') (JArr [])))))"

definition summarize_intent :: "dict \<Rightarrow> exn + unit" where
  "summarize_intent intent_obj =
     (case get_or intent_obj (U ''profile'') (JStr []) of
        JStr prof \<Rightarrow>
          (let oc = or_else (get_or intent_obj (U ''operating_conditions'') (JObj [])) (JObj []);
               mats = or_else (get_or intent_obj (U ''materials'') (JObj [])) (JObj []);
               tls = or_else (get_or intent_obj (U ''thermal_loads'') (JArr [])) (JArr []);
               acc = or_else (get_or intent_obj (U ''accuracy_pref'') (JObj [])) (JObj []);
               deliv = or_else (get_or intent_obj (U ''deliverables'') (JObj [])) (JObj [])
           in
           exn_bind (summarize_mesh intent_obj prof)
             (\<lambda>u. exn_bind (summarize_conditions oc)
               (\<lambda>u. exn_bind (summarize_heat tls)
                 (\<lambda>u. exn_bind (summarize_material mats)
                   (\<lambda>u. exn_bind (summarize_accuracy acc)
                     (\<lambda>u. exn_bind (summarize_openfoam intent_obj prof)
                       (\<lambda>u. summarize_deliverables deliv)))))))
      | _ \<Rightarrow> Inl AttributeError)"

text \<open>
  \<^verbatim>\<open>build_multilayer_summary\<close>: with an invalid initial schema result it returns the issue
  report at once; otherwise it ends with \<^verbatim>\<open>summarize_intent(final_intent)\<close>, the only
  statement in it that can raise.  \<open>schema_final\<close> is \<open>None\<close> where the source passes
  \<^verbatim>\<open>None\<close>; the handler of a reviewer failure passes \<^verbatim>\<open>schema_initial\<close> itself.
\<close>

definition build_multilayer_summary ::
  "env \<Rightarrow> dict \<Rightarrow> dict option \<Rightarrow> dict \<Rightarrow> dict \<Rightarrow> pystr \<Rightarrow> exn + pystr" where
  "build_multilayer_summary e schema_initial schema_final review final_intent pipeline_status =
     (let text = multilayer_summary_text e schema_initial schema_final review final_intent
                   pipeline_status
      in if \<not> truthy (get_or schema_initial (U ''valid'') (JBool False)) then Inr text
         else exn_bind (summarize_intent final_intent) (\<lambda>u. Inr text))"

section \<open>The full-fill pipeline (\<^verbatim>\<open>POST /intent/fill\<close>)\<close>

record fill_request =
  user_request :: pystr
  profile_slug :: pystr
  use_template :: bool
  model :: "pystr option"
  client_intent :: "dict option"

text \<open>The response dict; the last two keys are present only in some responses.\<close>

record fill_response =
  resp_profile_slug :: pystr
  resp_family :: pystr
  resp_intent :: dict
  resp_human_summary :: pystr
  resp_review :: dict
  resp_pipeline_status :: pystr
  resp_missing_parameters :: "dict list"
  resp_default_intent :: "dict option"
  resp_defaults_overview :: "dict option"

text \<open>The dict as the handler builds it, key by key, which \<^verbatim>\<open>JSONResponse\<close> receives.\<close>

definition fill_content :: "fill_response \<Rightarrow> json" where
  "fill_content r =
     JObj ([(U ''profile_slug'', JStr (resp_profile_slug r)),
            (U ''family'', JStr (resp_family r)),
            (U ''intent'', JObj (resp_intent r)),
            (U ''human_summary'', JStr (resp_human_summary r)),
            (U ''review'', JObj (resp_review r)),
            (U ''pipeline_status'', JStr (resp_pipeline_status r)),
            (U ''missing_parameters'', JArr (map JObj (resp_missing_parameters r)))]
           @ (case resp_default_intent r of
                Some d \<Rightarrow> [(U ''default_intent'', JObj d)] | None \<Rightarrow> [])
           @ (case resp_defaults_overview r of
                Some d \<Rightarrow> [(U ''defaults_overview'', JObj d)] | None \<Rightarrow> []))"

text \<open>\<^verbatim>\<open>return JSONResponse(response)\<close> in the full-fill handler.\<close>

definition send_fill :: "fill_response \<Rightarrow> fill_response outcome" where
  "send_fill r = send_json (fill_content r) r"

text \<open>
  The local variables that are live at the statement \<^verbatim>\<open>final_intent["profile"] =
  meta["profile"]\<close>, after it ran: the request has passed the collecting stage.
\<close>

record fill_state =
  st_meta :: profile_meta
  st_schema :: json
  st_final_intent :: dict
  st_defaults_intent :: "dict option"
  st_defaults_overview :: "dict option"
  st_calls :: "call list"

text \<open>\<^verbatim>\<open>intent["profile"] = meta["profile"]\<close>.\<close>

definition force_profile :: "profile_meta \<Rightarrow> dict \<Rightarrow> dict" where
  "force_profile meta intent_obj = dict_set (U ''profile'') (JStr (meta_profile meta)) intent_obj"

text \<open>\<^verbatim>\<open>if defaults_intent: response["default_intent"] = defaults_intent\<close>.\<close>

definition if_nonempty :: "dict option \<Rightarrow> dict option" where
  "if_nonempty d = (case d of Some kvs \<Rightarrow> (if kvs \<noteq> [] then Some kvs else None) | None \<Rightarrow> None)"

definition json_of_option :: "dict option \<Rightarrow> json" where
  "json_of_option d = (case d of Some kvs \<Rightarrow> JObj kvs | None \<Rightarrow> JNull)"

text \<open>
  The branch \<^verbatim>\<open>if req.client_intent is None\<close>: the collector call and the normalisation of
  its answer.  It ends the request (\<open>Inl\<close>) when the call fails or parameters are missing.
  \<^verbatim>\<open>build_collection_summary\<close> reads the normalised records only and cannot raise.
\<close>

definition collect_stage ::
  "env \<Rightarrow> fill_request \<Rightarrow> profile_meta \<Rightarrow> json \<Rightarrow> dict \<Rightarrow>
   (fill_response outcome \<times> call list) + fill_state" where
  "collect_stage e req meta schema template_obj =
     (case call_llm_collect_parameters e (user_request req) template_obj (model req) of
        Inl msg \<Rightarrow> Inl (HTTPError 502, [CollectorCall template_obj])
      | Inr collected \<Rightarrow>
          (let collected_dict = (case collected of JObj d \<Rightarrow> d | _ \<Rightarrow> []);
               intent_raw = (if is_dict (pyget collected_dict (U ''intent''))
                             then pyget collected_dict (U ''intent'') else JObj []);
               intent_obj = force_profile meta
                 (merge_with_template template_obj
                    (if is_dict intent_raw then intent_raw else JObj []));
               missing_list = normalize_missing_parameters (py_str e)
                 (pyget collected_dict (U ''missing_parameters''));
               defaults_overview =
                 (case pyget collected_dict (U ''defaults_overview'') of
                    JObj d \<Rightarrow> Some d | _ \<Rightarrow> None);
               summary_hint = str_or_empty (py_str e) (pyget collected_dict (U ''summary''));
               defaults_intent =
                 (case pyget collected_dict (U ''default_intent'') of
                    JObj d \<Rightarrow> Some (force_profile meta (merge_with_template template_obj (JObj d)))
                  | _ \<Rightarrow> None)
           in
           if missing_list \<noteq> [] then
             Inl (send_fill
                    \<lparr>resp_profile_slug = profile_slug req,
                     resp_family = meta_family meta,
                     resp_intent = intent_obj,
                     resp_human_summary = collection_summary_text e missing_list summary_hint,
                     resp_review =
                       [(U ''stage'', JStr (U ''collecting'')),
                        (U ''summary'', JStr summary_hint),
                        (U ''missing'', JArr (map JObj missing_list)),
                        (U ''defaults_overview'', json_of_option defaults_overview)],
                     resp_pipeline_status = U ''needs_parameters'',
                     resp_missing_parameters = missing_list,
                     resp_default_intent = if_nonempty defaults_intent,
                     resp_defaults_overview = defaults_overview\<rparr>,
                  [CollectorCall template_obj])
           else
             Inr \<lparr>st_meta = meta, st_schema = schema,
                  st_final_intent = force_profile meta (deep_copy_json intent_obj),
                  st_defaults_intent = defaults_intent,
                  st_defaults_overview = defaults_overview,
                  st_calls = [CollectorCall template_obj]\<rparr>))"

text \<open>\<^verbatim>\<open>load_json\<close> under the handler \<^verbatim>\<open>except FileNotFoundError\<close> of an endpoint.\<close>

definition load_or_fail :: "env \<Rightarrow> pystr \<Rightarrow> 'a outcome + json" where
  "load_or_fail e p =
     (case load_json e p of
        Inl (FileNotFoundError q) \<Rightarrow> Inl (HTTPError 500)
      | Inl ex \<Rightarrow> Inl (Crash ex)
      | Inr j \<Rightarrow> Inr j)"

text \<open>
  The start of the endpoint: the registry lookup and the loading of template and schema
  (\<^verbatim>\<open>template_obj\<close> is the template when that is a dict, otherwise empty).
\<close>

definition fill_setup ::
  "env \<Rightarrow> fill_request \<Rightarrow> fill_response outcome + (profile_meta \<times> json \<times> dict)" where
  "fill_setup e req =
     (case PROFILE_REGISTRY (profile_slug req) of
        None \<Rightarrow> Inl (HTTPError 400)
      | Some meta \<Rightarrow>
          (case (if use_template req then load_or_fail e (meta_template meta)
                 else Inr (JObj [])) of
             Inl failed \<Rightarrow> Inl failed
           | Inr template \<Rightarrow>
               (case load_or_fail e (meta_schema meta) of
                  Inl failed \<Rightarrow> Inl failed
                | Inr schema \<Rightarrow>
                    Inr (meta, schema, (case template of JObj d \<Rightarrow> d | _ \<Rightarrow> [])))))"

text \<open>The pipeline up to and including \<^verbatim>\<open>final_intent["profile"] = meta["profile"]\<close>.\<close>

definition fill_collect ::
  "env \<Rightarrow> fill_request \<Rightarrow> (fill_response outcome \<times> call list) + fill_state" where
  "fill_collect e req =
     (case fill_setup e req of
        Inl failed \<Rightarrow> Inl (failed, [])
      | Inr (meta, schema, template_obj) \<Rightarrow>
          (case client_intent req of
             None \<Rightarrow> collect_stage e req meta schema template_obj
           | Some ci \<Rightarrow>
               Inr \<lparr>st_meta = meta, st_schema = schema,
                    st_final_intent =
                      force_profile meta (merge_with_template template_obj (JObj ci)),
                    st_defaults_intent = None,
                    st_defaults_overview = None,
                    st_calls = []\<rparr>))"

text \<open>The response dict built at each of the three later exits of the pipeline.\<close>

definition fill_reply ::
  "fill_request \<Rightarrow> fill_state \<Rightarrow> dict \<Rightarrow> dict \<Rightarrow> pystr \<Rightarrow> pystr \<Rightarrow> fill_response" where
  "fill_reply req st final_intent review_payload pipeline_status human_summary =
     \<lparr>resp_profile_slug = profile_slug req,
      resp_family = meta_family (st_meta st),
      resp_intent = final_intent,
      resp_human_summary = human_summary,
      resp_review = review_payload,
      resp_pipeline_status = pipeline_status,
      resp_missing_parameters = [],
      resp_default_intent = if_nonempty (st_defaults_intent st),
      resp_defaults_overview = st_defaults_overview st\<rparr>"

text \<open>
  The end of each of these exits: \<^verbatim>\<open>human_summary = build_multilayer_summary(...)\<close>, the
  response dict built around that text, \<^verbatim>\<open>return JSONResponse(response)\<close>.  The request
  ends with the exception when building the summary raises, or when the constructor
  of the response does.
\<close>

definition reply_after_summary ::
  "exn + pystr \<Rightarrow> (pystr \<Rightarrow> fill_response) \<Rightarrow> call list \<Rightarrow>
   fill_response outcome \<times> call list" where
  "reply_after_summary summary response calls =
     (case summary of
        Inl ex \<Rightarrow> (Crash ex, calls)
      | Inr human_summary \<Rightarrow> (send_fill (response human_summary), calls))"

text \<open>
  The pipeline after the reviewer has answered: adopt \<^verbatim>\<open>updated_intent\<close>, force the
  profile, validate again.
\<close>

definition after_review ::
  "env \<Rightarrow> fill_request \<Rightarrow> fill_state \<Rightarrow> dict \<Rightarrow> json \<Rightarrow> call list \<Rightarrow>
   fill_response outcome \<times> call list" where
  "after_review e req st schema_initial reasoner_raw calls =
     (let reasoner = (case reasoner_raw of JObj r \<Rightarrow> Some r | _ \<Rightarrow> None);
          field = (\<lambda>k. case reasoner of Some r \<Rightarrow> pyget r k | None \<Rightarrow> JNull);
          final_intent = force_profile (st_meta st)
            (case field (U ''updated_intent'') of
               JObj u \<Rightarrow> deep_copy_json u
             | _ \<Rightarrow> st_final_intent st)
      in
      case schema_validate (validator_errors e) final_intent (st_schema st) of
        Inl ex \<Rightarrow> (Crash ex, calls)
      | Inr errors \<Rightarrow>
          (let schema_final = format_schema_errors errors;
               review_payload =
                 dict_set (U ''auto_corrections'') (field (U ''auto_corrections''))
                   (dict_set (U ''expert'') (field (U ''expert_review''))
                      (dict_set (U ''physics'') (field (U ''physics_check''))
                         (dict_set (U ''schema_final'') (JObj schema_final)
                            [(U ''schema_initial'', JObj schema_initial)])));
               pipeline_status =
                 (if \<not> truthy (pyget schema_final (U ''valid'')) then U ''schema_regression''
                  else U ''ok'')
           in reply_after_summary
                (build_multilayer_summary e schema_initial (Some schema_final) review_payload
                   final_intent pipeline_status)
                (fill_reply req st final_intent review_payload pipeline_status) calls))"

text \<open>The pipeline from the initial validation on.\<close>

definition validate_and_review ::
  "env \<Rightarrow> fill_request \<Rightarrow> fill_state \<Rightarrow> fill_response outcome \<times> call list" where
  "validate_and_review e req st =
     (let final_intent = st_final_intent st in
      case schema_validate (validator_errors e) final_intent (st_schema st) of
        Inl ex \<Rightarrow> (Crash ex, st_calls st)
      | Inr errors \<Rightarrow>
          (let schema_initial = format_schema_errors errors;
               review_payload = [(U ''schema_initial'', JObj schema_initial)]
           in
           if \<not> truthy (pyget schema_initial (U ''valid'')) then
             reply_after_summary
               (build_multilayer_summary e schema_initial None review_payload final_intent
                  (U ''schema_failed''))
               (fill_reply req st final_intent review_payload (U ''schema_failed''))
               (st_calls st)
           else
             (case call_reasoner_review e final_intent (st_meta st) (st_schema st) of
                Inl msg \<Rightarrow>
                  (let review_payload =
                         dict_set (U ''reasoner_error'') (JStr msg) review_payload
                   in reply_after_summary
                        (build_multilayer_summary e schema_initial (Some schema_initial)
                           review_payload final_intent (U ''reasoner_failed''))
                        (fill_reply req st final_intent review_payload (U ''reasoner_failed''))
                        (st_calls st @ [ReviewerCall final_intent]))
              | Inr reasoner_raw \<Rightarrow>
                  after_review e req st schema_initial reasoner_raw
                    (st_calls st @ [ReviewerCall final_intent]))))"

definition intent_fill :: "env \<Rightarrow> fill_request \<Rightarrow> fill_response outcome \<times> call list" where
  "intent_fill e req =
     (case fill_collect e req of
        Inl ended \<Rightarrow> ended
      | Inr st \<Rightarrow> validate_and_review e req st)"

text \<open>No reviewer call was made during a request.\<close>

definition reviewer_never_invoked :: "call list \<Rightarrow> bool" where
  "reviewer_never_invoked calls = (\<not> list_ex is_reviewer_call calls)"


section \<open>The fast-fill entry point (\<^verbatim>\<open>POST /intent/fill_fast\<close>)\<close>

record fill_fast_request =
  ff_user_request :: pystr
  ff_profile_slug :: pystr
  ff_dimension_mode :: "pystr option"
  ff_model :: "pystr option"
  ff_job_meta :: "dict option"

text \<open>
  \<^verbatim>\<open>coerce_string_list\<close> turns what the generation service put under \<^verbatim>\<open>defaults_used\<close> or
  \<^verbatim>\<open>open_questions\<close> into a list of non-blank strings.  \<open>keep_text\<close> is the step
  \<^verbatim>\<open>text = s.strip(); if text: result.append(text)\<close>.
\<close>

definition keep_text :: "pystr \<Rightarrow> pystr list" where
  "keep_text s = (if py_strip s \<noteq> [] then [py_strip s] else [])"

text \<open>The characters at which \<^verbatim>\<open>str.splitlines()\<close> breaks a line; \<^verbatim>\<open>"\r\n"\<close> is one break.\<close>

definition line_break :: "nat \<Rightarrow> bool" where
  "line_break c \<longleftrightarrow>
     (10 \<le> c \<and> c \<le> 13) \<or> (28 \<le> c \<and> c \<le> 30) \<or> c = 133 \<or> c = 8232 \<or> c = 8233"

text \<open>\<^verbatim>\<open>s.splitlines()\<close>; \<open>line\<close> holds the current line, last character first.\<close>

fun splitlines_from :: "pystr \<Rightarrow> pystr \<Rightarrow> pystr list" where
  "splitlines_from line [] = (if line = [] then [] else [rev line])"
| "splitlines_from line [c] =
     (if line_break c then [rev line] else [rev (c # line)])"
| "splitlines_from line (c # d # cs) =
     (if c = 13 \<and> d = 10 then rev line # splitlines_from [] cs
      else if line_break c then rev line # splitlines_from [] (d # cs)
      else splitlines_from (c # line) (d # cs))"

definition splitlines :: "pystr \<Rightarrow> pystr list" where
  "splitlines s = splitlines_from [] s"

text \<open>For a dict item: the first of the keys \<^verbatim>\<open>text\<close>, \<^verbatim>\<open>message\<close>, \<^verbatim>\<open>detail\<close> whose value is
  a string decides (\<^verbatim>\<open>break\<close>).\<close>

fun first_text :: "dict \<Rightarrow> pystr list \<Rightarrow> pystr list" where
  "first_text d [] = []"
| "first_text d (k # ks) =
     (case pyget d k of JStr s \<Rightarrow> keep_text s | _ \<Rightarrow> first_text d ks)"

definition coerce_item :: "(json \<Rightarrow> pystr) \<Rightarrow> json \<Rightarrow> pystr list" where
  "coerce_item str_of item =
     (case item of
        JStr s \<Rightarrow> keep_text s
      | JObj d \<Rightarrow> first_text d [U ''text'', U ''message'', U ''detail'']
      | _ \<Rightarrow> keep_text (str_of item))"

definition coerce_string_list :: "(json \<Rightarrow> pystr) \<Rightarrow> json \<Rightarrow> pystr list" where
  "coerce_string_list str_of v =
     (case v of
        JNull \<Rightarrow> []
      | JArr xs \<Rightarrow> concat (map (coerce_item str_of) xs)
      | JStr s \<Rightarrow> concat (map keep_text (splitlines s))
      | _ \<Rightarrow> keep_text (str_of v))"

text \<open>The response dict.\<close>

record fill_fast_response =
  ffr_profile_slug :: pystr
  ffr_family :: pystr
  ffr_intent :: dict
  ffr_defaults_used :: "pystr list"
  ffr_open_questions :: "pystr list"
  ffr_dimension_mode :: json

definition fill_fast_content :: "fill_fast_response \<Rightarrow> json" where
  "fill_fast_content r =
     JObj [(U ''profile_slug'', JStr (ffr_profile_slug r)),
           (U ''family'', JStr (ffr_family r)),
           (U ''intent'', JObj (ffr_intent r)),
           (U ''defaults_used'', JArr (map JStr (ffr_defaults_used r))),
           (U ''open_questions'', JArr (map JStr (ffr_open_questions r))),
           (U ''dimension_mode'', ffr_dimension_mode r)]"

text \<open>\<^verbatim>\<open>d.update(other)\<close>.\<close>

definition dict_update :: "dict \<Rightarrow> dict \<Rightarrow> dict" where
  "dict_update d other = foldl (\<lambda>acc kv. dict_set (fst kv) (snd kv) acc) d other"

text \<open>
  The block \<^verbatim>\<open>if isinstance(req.job_meta, dict): ...\<close> shared by the fast-fill and the save
  entry points: the request's job metadata is written over the intent's.
\<close>

definition merge_job_meta :: "dict option \<Rightarrow> dict \<Rightarrow> dict" where
  "merge_job_meta req_job_meta intent_obj =
     (case req_job_meta of
        None \<Rightarrow> intent_obj
      | Some jm \<Rightarrow>
          (let job_meta = (case pyget intent_obj (U ''job_meta'') of JObj d \<Rightarrow> d | _ \<Rightarrow> [])
           in dict_set (U ''job_meta'') (JObj (dict_update job_meta jm)) intent_obj))"

definition intent_fill_fast :: "env \<Rightarrow> fill_fast_request \<Rightarrow> fill_fast_response outcome" where
  "intent_fill_fast e req =
     (case PROFILE_REGISTRY (ff_profile_slug req) of
        None \<Rightarrow> HTTPError 400
      | Some meta \<Rightarrow>
          (case load_or_fail e (meta_template meta) of
             Inl failed \<Rightarrow> failed
           | Inr template_raw \<Rightarrow>
               (let template_obj = (case template_raw of JObj d \<Rightarrow> d | _ \<Rightarrow> []);
                    dimension_mode = normalize_dimension_mode (ff_dimension_mode req);
                    prepared_template = apply_dimension_mode_to_template template_obj dimension_mode
                in
                case call_llm_fill_fast e (ff_user_request req) prepared_template
                       (ff_profile_slug req) dimension_mode (ff_model req) of
                  Inl msg \<Rightarrow> HTTPError 502
                | Inr (JObj llm_result) \<Rightarrow>
                    (let llm_intent_raw = pyget llm_result (U ''intent'');
                         intent0 = force_profile meta
                           (merge_with_template prepared_template
                              (if is_dict llm_intent_raw then llm_intent_raw else JObj []));
                         intent1 = merge_job_meta (ff_job_meta req) intent0;
                         intent2 = enforce_dimension_mode intent1 dimension_mode prepared_template
                     in
                     case template_section intent2 (U ''geometry'') of
                       Inl ex \<Rightarrow> Crash ex
                     | Inr geo \<Rightarrow>
                         (let response =
                                \<lparr>ffr_profile_slug = ff_profile_slug req,
                                 ffr_family = meta_family meta,
                                 ffr_intent = intent2,
                                 ffr_defaults_used =
                                   coerce_string_list (py_str e)
                                     (pyget llm_result (U ''defaults_used'')),
                                 ffr_open_questions =
                                   coerce_string_list (py_str e)
                                     (pyget llm_result (U ''open_questions'')),
                                 ffr_dimension_mode =
                                   (case geo of JObj g \<Rightarrow> pyget g (U ''dimension_mode'')
                                    | _ \<Rightarrow> JNull)\<rparr>
                          in send_json (fill_fast_content response) response))
                | Inr other \<Rightarrow> HTTPError 502)))"

section \<open>IntentStore and the save entry point (\<^verbatim>\<open>POST /intent/save\<close>)\<close>

text \<open>
  \<^verbatim>\<open>normalize_job_id\<close>.  The synthesised id \<^verbatim>\<open>job-<timestamp>-<random>\<close> comes from the
  clock and a random source and is taken from the environment.
\<close>

definition safe_char :: "nat \<Rightarrow> bool" where
  "safe_char c \<longleftrightarrow>
     (48 \<le> c \<and> c \<le> 57) \<or> (65 \<le> c \<and> c \<le> 90) \<or> (97 \<le> c \<and> c \<le> 122) \<or> c = 95 \<or> c = 45"

definition strip_dashes :: "pystr \<Rightarrow> pystr" where
  "strip_dashes s = rev (dropWhile (\<lambda>c. c = 45) (rev (dropWhile (\<lambda>c. c = 45) s)))"

definition normalize_job_id :: "env \<Rightarrow> json \<Rightarrow> pystr" where
  "normalize_job_id e raw =
     (let value = str_or_empty (py_str e) raw;
          sanitized = strip_dashes (map (\<lambda>c. if safe_char c then c else 45) value)
      in if value \<noteq> [] \<and> sanitized \<noteq> [] then take 120 sanitized
         else synthesized_job_id e)"

text \<open>The storage directory: for each job id the document in its \<^verbatim>\<open>intent.json\<close>; \<open>None\<close>
  when there is no such file or the file holds no complete document.\<close>

type_synonym storage = "pystr \<Rightarrow> dict option"

record storage_record =
  sr_intent :: dict
  sr_job_id :: pystr
  sr_relative_path :: pystr
  sr_storage_path :: pystr

text \<open>
  \<^verbatim>\<open>save_intent_with_job_directory\<close>.  \<^verbatim>\<open>job_meta\<close> is the very dict stored in the intent,
  so the job id written into it last is part of the saved document.  The result is paired
  with the storage after the call.

  The file is opened for writing with \<^verbatim>\<open>encoding="utf-8"\<close>, which empties it, and
  \<^verbatim>\<open>json.dump(final_intent, f, ensure_ascii=False, indent=2)\<close> writes the document piece
  by piece.  \<^verbatim>\<open>json.dump\<close> allows infinite floats, but the file refuses a lone surrogate
  with \<^verbatim>\<open>UnicodeEncodeError\<close>, and the file is then left cut short.  When the storage
  cannot be written at all (directory or file cannot be created), nothing changes.
\<close>

definition save_intent_with_job_directory ::
  "env \<Rightarrow> storage \<Rightarrow> dict \<Rightarrow> (exn + storage_record) \<times> storage" where
  "save_intent_with_job_directory e files intent_obj =
     (if \<not> storage_writable e then (Inl (External (U ''cannot write to storage'')), files)
      else
        (let final_intent = deep_copy_json intent_obj;
             job_meta = (case pyget final_intent (U ''job_meta'') of JObj d \<Rightarrow> d | _ \<Rightarrow> []);
             job_id = normalize_job_id e (pyget job_meta (U ''job_id''));
             job_meta = dict_set (U ''job_id'') (JStr job_id) job_meta;
             final_intent = dict_set (U ''job_meta'') (JObj job_meta) final_intent;
             relative_path = job_id @ U ''/intent.json''
         in if \<not> utf8_text (JObj final_intent)
            then (Inl UnicodeEncodeError, files(job_id := None))
            else (Inr \<lparr>sr_intent = final_intent, sr_job_id = job_id,
                       sr_relative_path = relative_path,
                       sr_storage_path = U ''storage/'' @ relative_path\<rparr>,
                  files(job_id \<mapsto> final_intent))))"

record save_request =
  sv_intent :: dict
  sv_profile_slug :: "pystr option"
  sv_job_meta :: "dict option"

record save_response =
  svr_job_id :: pystr
  svr_relative_path :: pystr
  svr_storage_path :: pystr
  svr_intent :: dict
  svr_profile_slug :: pystr

text \<open>The payload dict of a successful save.\<close>

definition save_content :: "save_response \<Rightarrow> json" where
  "save_content r =
     JObj [(U ''ok'', JBool True),
           (U ''job_id'', JStr (svr_job_id r)),
           (U ''relative_path'', JStr (svr_relative_path r)),
           (U ''storage_path'', JStr (svr_storage_path r)),
           (U ''intent'', JObj (svr_intent r)),
           (U ''profile_slug'', JStr (svr_profile_slug r))]"

text \<open>
  \<^verbatim>\<open>return JSONResponse(status_code=400, content={"valid": False, "issues": issues})\<close>: the
  answer to an intent that fails validation.
\<close>

definition send_invalid :: "json list \<Rightarrow> 'a outcome" where
  "send_invalid issues =
     (case JSONResponse (JObj [(U ''valid'', JBool False), (U ''issues'', JArr issues)]) of
        Inl ex \<Rightarrow> Crash ex
      | Inr body \<Rightarrow> Invalid issues)"

text \<open>
  How the save entry point finds the profile: the slug of the request when the registry
  knows it, otherwise the \<^verbatim>\<open>profile\<close> field of the submitted intent, looked up in
  \<^verbatim>\<open>PROFILE_BY_NAME\<close>.  A \<^verbatim>\<open>profile\<close> that is a list or a dict cannot be a dict key:
  that lookup raises \<^verbatim>\<open>TypeError\<close>.  The result is the registry entry with its slug.
\<close>

definition resolve_profile ::
  "pystr option \<Rightarrow> dict \<Rightarrow> save_response outcome + (profile_meta \<times> pystr)" where
  "resolve_profile slug intent_obj =
     (case (case slug of
              Some sl \<Rightarrow> (if sl \<noteq> [] then map_option (\<lambda>m. (m, sl)) (PROFILE_REGISTRY sl) else None)
            | None \<Rightarrow> None) of
        Some found \<Rightarrow> Inr found
      | None \<Rightarrow>
          (let profile_name = pyget intent_obj (U ''profile'') in
           if truthy profile_name then
             (case profile_name of
                JStr name \<Rightarrow>
                  (case PROFILE_BY_NAME name of Some found \<Rightarrow> Inr found
                   | None \<Rightarrow> Inl (HTTPError 400))
              | JArr xs \<Rightarrow> Inl (Crash TypeError)
              | JObj d \<Rightarrow> Inl (Crash TypeError)
              | _ \<Rightarrow> Inl (HTTPError 400))
           else Inl (HTTPError 400)))"

definition intent_save :: "env \<Rightarrow> storage \<Rightarrow> save_request \<Rightarrow> save_response outcome \<times> storage" where
  "intent_save e files req =
     (case resolve_profile (sv_profile_slug req) (sv_intent req) of
        Inl failed \<Rightarrow> (failed, files)
      | Inr (meta, slug) \<Rightarrow>
          (case load_or_fail e (meta_schema meta) of
             Inl failed \<Rightarrow> (failed, files)
           | Inr schema \<Rightarrow>
               (let intent_obj = merge_job_meta (sv_job_meta req)
                      (force_profile meta (deep_copy_json (sv_intent req)))
                in
                case schema_validate (validator_errors e) intent_obj schema of
                  Inl ex \<Rightarrow> (Crash ex, files)
                | Inr errors \<Rightarrow>
                    (if errors \<noteq> [] then (send_invalid (map format_issue errors), files)
                     else
                       (case save_intent_with_job_directory e files intent_obj of
                          (Inl ex, files') \<Rightarrow> (HTTPError 500, files')
                        | (Inr saved, files') \<Rightarrow>
                            (let payload =
                                   \<lparr>svr_job_id = sr_job_id saved,
                                    svr_relative_path = sr_relative_path saved,
                                    svr_storage_path = sr_storage_path saved,
                                    svr_intent = sr_intent saved,
                                    svr_profile_slug =
                                      (case sv_profile_slug req of
                                         Some sl \<Rightarrow> (if sl \<noteq> [] then sl else slug)
                                       | None \<Rightarrow> slug)\<rparr>
                             in (send_json (save_content payload) payload, files')))))))"

section \<open>A sample deployment, for evaluating the pipeline\<close>

text \<open>
  A small template, a schema that requires \<^verbatim>\<open>operating_conditions\<close> to be an object, a
  validator for that schema, generation services that answer in fixed ways, and summaries
  that consist of their first line.
\<close>

definition demo_template :: dict where
  "demo_template =
     [(U ''profile'', JStr (U ''CoolingPlate-OF-Intent@blockMesh_v1.0'')),
      (U ''operating_conditions'', JObj [(U ''time_mode'', JStr (U ''steady''))])]"

definition demo_schema :: json where
  "demo_schema =
     JObj [(U ''type'', JStr (U ''object'')),
           (U ''required'', JArr [JStr (U ''operating_conditions'')]),
           (U ''properties'',
            JObj [(U ''operating_conditions'', JObj [(U ''type'', JStr (U ''object''))])])]"

definition demo_validator :: "json \<Rightarrow> dict \<Rightarrow> verror list" where
  "demo_validator schema instance =
     (case dict_get instance (U ''operating_conditions'') of
        None \<Rightarrow>
          [\<lparr>err_path = [], err_message = U ''operating_conditions is a required property''\<rparr>]
      | Some (JObj d) \<Rightarrow> []
      | Some v \<Rightarrow>
          [\<lparr>err_path = [Key (U ''operating_conditions'')],
            err_message = U ''value is not of type object''\<rparr>])"

definition demo_env :: env where
  "demo_env =
     \<lparr>py_str = (\<lambda>v. []),
      load_json = (\<lambda>p. if p = meta_schema openfoam_bmesh_v1 then Inr demo_schema
                        else Inr (JObj demo_template)),
      validator_errors = demo_validator,
      call_llm_collect_parameters =
        (\<lambda>u t m. Inr (JObj [(U ''intent'', JObj []), (U ''missing_parameters'', JArr [])])),
      call_reasoner_review = (\<lambda>i m s. Inr (JObj [(U ''updated_intent'', JObj i)])),
      call_llm_fill_fast =
        (\<lambda>u t s d m. Inr (JObj [(U ''intent'', JObj [(U ''profile'', JStr (U ''forged''))])])),
      synthesized_job_id = U ''job-20260101T000000-abc123'',
      storage_writable = True,
      collection_summary_text = (\<lambda>missing hint. U ''[parameter collection]''),
      multilayer_summary_text = (\<lambda>si sf review intent_obj status. U ''[multilayer check]'')\<rparr>"

definition demo_request :: fill_request where
  "demo_request =
     \<lparr>user_request = U ''cool a plate'',
      profile_slug = U ''coolingplate-openfoam-bmesh-v1'',
      use_template = True, model = None, client_intent = None\<rparr>"



definition env_review_timeout :: env where
  "env_review_timeout = demo_env\<lparr>call_reasoner_review := (\<lambda>i m s. Inl (U ''timeout''))\<rparr>"

text \<open>The reviewer call fails on content that is not JSON; the error message quotes the
  content, which holds the lone surrogate U+D800.\<close>

definition env_review_malformed :: env where
  "env_review_malformed =
     demo_env\<lparr>call_reasoner_review := (\<lambda>i m s. Inl (U ''not JSON: '' @ [55296]))\<rparr>"

definition env_review_regression :: env where
  "env_review_regression = demo_env\<lparr>call_reasoner_review :=
     (\<lambda>i m s. Inr (JObj [(U ''updated_intent'',
                         JObj [(U ''operating_conditions'', JStr (U ''x''))])]))\<rparr>"

text \<open>The reviewer drops everything: its updated intent is the empty object.\<close>

definition env_review_empty :: env where
  "env_review_empty = demo_env\<lparr>call_reasoner_review :=
     (\<lambda>i m s. Inr (JObj [(U ''updated_intent'', JObj [])]))\<rparr>"

definition demo_state :: fill_state where
  "demo_state =
     \<lparr>st_meta = openfoam_bmesh_v1, st_schema = demo_schema,
      st_final_intent = demo_template,
      st_defaults_intent = None, st_defaults_overview = None,
      st_calls = [CollectorCall demo_template]\<rparr>"

definition request_with_bad_intent :: fill_request where
  "request_with_bad_intent =
     demo_request\<lparr>client_intent := Some [(U ''operating_conditions'', JStr (U ''x''))]\<rparr>"







definition odd_intent :: dict where
  "odd_intent =
     [(U ''profile'', JStr (U ''CoolingPlate-OF-Intent@blockMesh_v1.0'')),
      (U ''operating_conditions'', JObj [(U ''time_mode'', JStr (U ''steady''))]),
      (U ''materials'', JStr (U ''x''))]"


definition request_with_forged_profile :: fill_request where
  "request_with_forged_profile =
     demo_request\<lparr>client_intent := Some [(U ''profile'', JStr (U ''forged''))]\<rparr>"

definition demo_fast_request :: fill_fast_request where
  "demo_fast_request =
     \<lparr>ff_user_request = U ''cool a plate'',
      ff_profile_slug = U ''coolingplate-openfoam-bmesh-v1'',
      ff_dimension_mode = Some (U ''2D_extruded''),
      ff_model = None, ff_job_meta = None\<rparr>"

definition demo_save_request :: save_request where
  "demo_save_request =
     \<lparr>sv_intent = [(U ''profile'', JStr (U ''forged'')), (U ''operating_conditions'', JObj [])],
      sv_profile_slug = Some (U ''coolingplate-openfoam-bmesh-v1''),
      sv_job_meta = Some [(U ''job_id'', JStr (U ''My Job/1''))]\<rparr>"

section \<open>Properties of the merge\<close>

lemma U_eq_iff [simp]: "U s = U t \<longleftrightarrow> s = t"
  unfolding U_def by (simp add: inj_map_eq_map inj_of_char)

lemma dict_get_set [simp]:
  "dict_get (dict_set k v d) k' = (if k' = k then Some v else dict_get d k')"
  by (induction d) auto

lemma copy_value_id [simp]: "copy_value j = j"
  by (induction j rule: copy_value.induct) (auto simp: map_idI)

lemma deep_copy_json_id [simp]: "deep_copy_json d = d"
  by (simp add: deep_copy_json_def)

text \<open>
  C9.  Merging the empty object onto a template gives the template back, and merging any
  overrides value that is not an object (\<^verbatim>\<open>None\<close> included) gives the deep copy of the
  template, which equals the template.
\<close>

theorem merge_identity_law:
  "merge_with_template T (JObj []) = T \<and>
   (\<forall>ov. \<not> is_dict ov \<longrightarrow>
      merge_with_template T ov = deep_copy_json T \<and> deep_copy_json T = T)"
proof -
  have "merge_with_template T ov = deep_copy_json T" if "\<not> is_dict ov" for ov
    using that by (cases ov) (simp_all add: merge_with_template_def)
  then show ?thesis
    by (simp add: merge_with_template_def)
qed

theorem merge_identity_law_witness:
  "\<not> is_dict (JStr (U ''x'')) \<and>
   merge_with_template [(U ''a'', JObj [(U ''b'', JInt 1)]), (U ''c'', JArr [JNull])] (JObj [])
     = [(U ''a'', JObj [(U ''b'', JInt 1)]), (U ''c'', JArr [JNull])] \<and>
   merge_with_template [(U ''a'', JObj [(U ''b'', JInt 1)]), (U ''c'', JArr [JNull])]
     (JStr (U ''x''))
     = [(U ''a'', JObj [(U ''b'', JInt 1)]), (U ''c'', JArr [JNull])]"
  using merge_identity_law
    [of "[(U ''a'', JObj [(U ''b'', JInt 1)]), (U ''c'', JArr [JNull])]"]
  by simp

lemma merge_into_keeps:
  "has_key_path dst p \<Longrightarrow> \<not> replaced_above src p \<Longrightarrow> has_key_path (merge_into dst src) p"
proof (induction dst src arbitrary: p rule: merge_into.induct)
  case (1 dst)
  then show ?case by simp
next
  case (2 dst key val src)
  define dst' where "dst' = (case val of
          JObj sv \<Rightarrow>
            (case dict_get dst key of
               Some (JObj dv) \<Rightarrow> dict_set key (JObj (merge_into dv sv)) dst
             | _ \<Rightarrow> dict_set key val dst)
        | _ \<Rightarrow> dict_set key val dst)"
  have rest: "\<not> replaced_above src p"
    using "2.prems"(2) by (cases "(src, p)" rule: replaced_above.cases) auto
  have "has_key_path dst' p"
  proof (cases "(src, p)" rule: replaced_above.cases)
    case (1 ov)
    then show ?thesis by simp
  next
    case (2 ov k)
    then show ?thesis using "2.prems"(1)
      by (auto simp: dst'_def split: json.splits option.splits)
  next
    case (3 ov k k' ks)
    show ?thesis
    proof (cases "k = key")
      case False
      then show ?thesis using "2.prems"(1) 3
        by (auto simp: dst'_def split: json.splits option.splits)
    next
      case True
      from "2.prems"(1) 3 True obtain dv
        where dv: "dict_get dst key = Some (JObj dv)" "has_key_path dv (k' # ks)"
        by (auto split: option.splits json.splits)
      from "2.prems"(2) 3 True obtain sv
        where sv: "val = JObj sv" "\<not> replaced_above sv (k' # ks)"
        by (auto split: json.splits)
      have "has_key_path (merge_into dv sv) (k' # ks)"
        using "2.IH"(1)[OF sv(1) dv(1) refl dv(2) sv(2)] .
      then show ?thesis using 3 True dv sv
        by (simp add: dst'_def)
    qed
  qed
  then have "has_key_path (merge_into dst' src) p"
    using "2.IH"(2) rest unfolding dst'_def by blast
  then show ?case by (simp add: dst'_def)
qed

text \<open>
  C10, as stated: every key path of the template that is absent from the overrides is
  present in the merge result.  It fails when the overrides replace an ancestor of the key
  by a scalar: the template \<^verbatim>\<open>{"a": {"b": 1}}\<close> merged with \<^verbatim>\<open>{"a": 5}\<close> is \<^verbatim>\<open>{"a": 5}\<close>,
  and the key \<^verbatim>\<open>a.b\<close>, which only the template has, is gone.
\<close>

theorem merge_drops_nested_key_counterexample:
  "has_key_path [(U ''a'', JObj [(U ''b'', JInt 1)])] [U ''a'', U ''b''] \<and>
   \<not> has_key_path [(U ''a'', JInt 5)] [U ''a'', U ''b''] \<and>
   merge_with_template [(U ''a'', JObj [(U ''b'', JInt 1)])] (JObj [(U ''a'', JInt 5)])
     = [(U ''a'', JInt 5)] \<and>
   \<not> has_key_path
       (merge_with_template [(U ''a'', JObj [(U ''b'', JInt 1)])] (JObj [(U ''a'', JInt 5)]))
       [U ''a'', U ''b'']"
  by (simp add: merge_with_template_def)

text \<open>
  C10, amended: a key path that is present in the template and absent from the overrides
  is present in the merge result, provided the overrides do not store a non-object value
  at an ancestor of that key (which replaces the template subtree wholesale).  Top-level
  keys have no ancestor, so they always survive.
\<close>

theorem merge_keeps_template_keys:
  "has_key_path T p \<Longrightarrow> \<not> has_key_path ov p \<Longrightarrow> \<not> replaced_above ov p \<Longrightarrow>
   has_key_path (merge_with_template T (JObj ov)) p"
  by (simp add: merge_with_template_def merge_into_keeps)

theorem merge_keeps_template_keys_witness:
  "has_key_path [(U ''a'', JObj [(U ''b'', JInt 1), (U ''c'', JInt 2)])] [U ''a'', U ''b''] \<and>
   \<not> has_key_path [(U ''a'', JObj [(U ''c'', JInt 7)])] [U ''a'', U ''b''] \<and>
   \<not> replaced_above [(U ''a'', JObj [(U ''c'', JInt 7)])] [U ''a'', U ''b''] \<and>
   has_key_path
     (merge_with_template [(U ''a'', JObj [(U ''b'', JInt 1), (U ''c'', JInt 2)])]
        (JObj [(U ''a'', JObj [(U ''c'', JInt 7)])]))
     [U ''a'', U ''b'']"
  using merge_keeps_template_keys
    [of "[(U ''a'', JObj [(U ''b'', JInt 1), (U ''c'', JInt 2)])]" "[U ''a'', U ''b'']"
        "[(U ''a'', JObj [(U ''c'', JInt 7)])]"]
  by simp

section \<open>Properties of dimension-mode enforcement\<close>

lemma norm2d [simp]: "normalize_dimension_mode (Some (U ''2D_extruded'')) = Some (U ''2D_extruded'')"
  by (simp add: normalize_dimension_mode_def VALID_DIMENSION_MODES_def py_strip_def U_def is_space_def)

lemma value_at_commit [simp]:
  "value_at (commit i m b) (U ''meshing'' # U ''blockMesh'' # k # ks) = value_at b (k # ks)"
  by (simp add: commit_def)

lemma dict_get_commit [simp]:
  "dict_get (commit i m b) (U ''meshing'') = Some (JObj (dict_set (U ''blockMesh'') (JObj b) m))"
  by (simp add: commit_def)

lemma absent_or_dict_cases:
  assumes "absent_or_dict d k"
  obtains "dict_get d k = None" | c where "dict_get d k = Some (JObj c)"
  using assms unfolding absent_or_dict_def
  by (cases "dict_get d k") (auto elim: is_dict.elims)

lemma enforce_walk:
  assumes ok: "intent_sections_ok intent_obj"
  obtains i1 m1 b1 g where
    "enforce_dimension_mode intent_obj (Some (U ''2D_extruded'')) t
       = enforce_geometry (U ''2D_extruded'') i1 m1 b1 g t"
    "value_at intent_obj thickness_path = None \<Longrightarrow> dict_get g (U ''thickness_2d_m'') = None"
    "absent_or_dict b1 (U ''cells'')"
    "value_at intent_obj nz_path = None \<Longrightarrow>
       \<forall>c. dict_get b1 (U ''cells'') = Some (JObj c) \<longrightarrow> dict_get c (U ''nz'') = None"
    "pyget g (U ''height_m'') = value_or_none intent_obj height_path"
proof (cases "dict_get intent_obj (U ''meshing'')")
  case None
  show ?thesis
    by (rule that[of "dict_set (U ''meshing'') (JObj []) intent_obj" "[(U ''blockMesh'', JObj [])]"
          "[(U ''geometry'', JObj [])]" "[]"])
       (simp_all add: enforce_dimension_mode_def setdefault_def None absent_or_dict_def
          value_or_none_def height_path_def pyget_def)
next
  case (Some mv)
  with ok obtain m where m: "dict_get intent_obj (U ''meshing'') = Some (JObj m)"
    by (cases mv) (simp_all add: intent_sections_ok_def)
  show ?thesis
  proof (cases "dict_get m (U ''blockMesh'')")
    case None
    show ?thesis
      by (rule that[of intent_obj "dict_set (U ''blockMesh'') (JObj []) m"
            "[(U ''geometry'', JObj [])]" "[]"])
         (simp_all add: enforce_dimension_mode_def setdefault_def None m absent_or_dict_def
          value_or_none_def height_path_def pyget_def)
  next
    case (Some bv)
    with ok m obtain b where b: "dict_get m (U ''blockMesh'') = Some (JObj b)"
      and gc: "absent_or_dict b (U ''geometry'')" "absent_or_dict b (U ''cells'')"
      by (cases bv) (simp_all add: intent_sections_ok_def)
    from gc(1) show ?thesis
    proof (cases rule: absent_or_dict_cases)
      case 1
      show ?thesis
        using gc(2)
        by (intro that[of intent_obj m "dict_set (U ''geometry'') (JObj []) b" "[]"])
           (auto simp: enforce_dimension_mode_def setdefault_def 1 m b absent_or_dict_def
              nz_path_def value_or_none_def height_path_def pyget_def)
    next
      case (2 g)
      show ?thesis
        using gc(2)
        by (intro that[of intent_obj m b g])
           (auto simp: enforce_dimension_mode_def setdefault_def 2 m b absent_or_dict_def
              nz_path_def thickness_path_def value_or_none_def height_path_def pyget_def)
    qed
  qed
qed

lemma enforce_geometry_2d:
  assumes tg: "template_section t (U ''geometry'') = Inr (JObj tg)"
    and tc: "template_section t (U ''cells'') = Inr (JObj tc)"
    and th: "dict_get g (U ''thickness_2d_m'') = None"
    and cells: "absent_or_dict b (U ''cells'')"
    and nz: "\<forall>c. dict_get b (U ''cells'') = Some (JObj c) \<longrightarrow> dict_get c (U ''nz'') = None"
  shows "value_at (enforce_geometry (U ''2D_extruded'') i m b g t) thickness_path
           = Some (let a = pyget tg (U ''thickness_2d_m'') in
                   if is_number a then a
                   else if is_number (pyget g (U ''height_m'')) then pyget g (U ''height_m'')
                   else JFloat (Finite (2 / 1000)))"
    and "value_at (enforce_geometry (U ''2D_extruded'') i m b g t) nz_path
           = (if is_int (pyget tc (U ''nz'')) then Some (pyget tc (U ''nz'')) else None)"
proof -
  define g1 where "g1 = dict_set (U ''dimension_mode'') (JStr (U ''2D_extruded'')) g"
  define fb where "fb = (let fallback = pyget tg (U ''thickness_2d_m'');
                  fallback = (if is_number fallback then fallback
                              else pyget g1 (U ''height_m''));
                  fallback = (if is_number fallback then fallback else JFloat (Finite (2 / 1000)))
              in fallback)"
  have fbnum: "fb = (let a = pyget tg (U ''thickness_2d_m'') in
                   if is_number a then a
                   else if is_number (pyget g (U ''height_m'')) then pyget g (U ''height_m'')
                   else JFloat (Finite (2 / 1000)))"
    by (simp add: fb_def Let_def g1_def pyget_def)
  have et: "enforce_thickness g1 (JObj tg) = Inr (dict_set (U ''thickness_2d_m'') fb g1)"
    using th by (simp add: enforce_thickness_def g1_def pyget_def fb_def Let_def)
  from cells have "value_at (enforce_geometry (U ''2D_extruded'') i m b g t) thickness_path
           = Some fb"
  proof (cases rule: absent_or_dict_cases)
    case 1
    then show ?thesis
      by (simp add: enforce_geometry_def tg tc setdefault_def et[unfolded g1_def] enforce_nz_def
          thickness_path_def Let_def)
  next
    case (2 c)
    with nz have "dict_get c (U ''nz'') = None" by simp
    then show ?thesis using 2
      by (simp add: enforce_geometry_def tg tc setdefault_def et[unfolded g1_def] enforce_nz_def
          thickness_path_def Let_def)
  qed
  then show "value_at (enforce_geometry (U ''2D_extruded'') i m b g t) thickness_path
           = Some (let a = pyget tg (U ''thickness_2d_m'') in
                   if is_number a then a
                   else if is_number (pyget g (U ''height_m'')) then pyget g (U ''height_m'')
                   else JFloat (Finite (2 / 1000)))"
    using fbnum by simp
  from cells show "value_at (enforce_geometry (U ''2D_extruded'') i m b g t) nz_path
           = (if is_int (pyget tc (U ''nz'')) then Some (pyget tc (U ''nz'')) else None)"
  proof (cases rule: absent_or_dict_cases)
    case 1
    then show ?thesis
      by (simp add: enforce_geometry_def tg tc setdefault_def et[unfolded g1_def] enforce_nz_def
          pyget_def nz_path_def Let_def)
  next
    case (2 c)
    with nz have "dict_get c (U ''nz'') = None" by simp
    then show ?thesis using 2
      by (simp add: enforce_geometry_def tg tc setdefault_def et[unfolded g1_def] enforce_nz_def
          pyget_def nz_path_def Let_def)
  qed
qed

lemma dict_set_nonempty [simp]: "dict_set k v d \<noteq> []"
  by (cases d) (auto split: if_splits)

lemma template_section_commit [simp]:
  "template_section (commit i m b) name
     = Inr (case dict_get b name of Some g \<Rightarrow> g | None \<Rightarrow> JObj [])"
  by (simp add: template_section_def pyget_def)

lemma apply_walk:
  assumes ok: "intent_sections_ok t0"
  obtains i1 m1 b1 g where
    "apply_dimension_mode_to_template t0 (Some (U ''2D_extruded''))
       = prepare_geometry (U ''2D_extruded'') i1 m1 b1 g"
    "absent_or_dict b1 (U ''cells'')"
proof (cases "dict_get t0 (U ''meshing'')")
  case None
  show ?thesis
    by (rule that[of "dict_set (U ''meshing'') (JObj []) t0" "[(U ''blockMesh'', JObj [])]"
          "[(U ''geometry'', JObj [])]" "[]"])
       (simp_all add: apply_dimension_mode_to_template_def setdefault_def None absent_or_dict_def)
next
  case (Some mv)
  with ok obtain m where m: "dict_get t0 (U ''meshing'') = Some (JObj m)"
    by (cases mv) (simp_all add: intent_sections_ok_def)
  show ?thesis
  proof (cases "dict_get m (U ''blockMesh'')")
    case None
    show ?thesis
      by (rule that[of t0 "dict_set (U ''blockMesh'') (JObj []) m"
            "[(U ''geometry'', JObj [])]" "[]"])
         (simp_all add: apply_dimension_mode_to_template_def setdefault_def None m
            absent_or_dict_def)
  next
    case (Some bv)
    with ok m obtain b where b: "dict_get m (U ''blockMesh'') = Some (JObj b)"
      and gc: "absent_or_dict b (U ''geometry'')" "absent_or_dict b (U ''cells'')"
      by (cases bv) (simp_all add: intent_sections_ok_def)
    from gc(1) show ?thesis
    proof (cases rule: absent_or_dict_cases)
      case 1
      show ?thesis
        using gc(2)
        by (intro that[of t0 m "dict_set (U ''geometry'') (JObj []) b" "[]"])
           (auto simp: apply_dimension_mode_to_template_def setdefault_def 1 m b
              absent_or_dict_def)
    next
      case (2 g)
      show ?thesis
        using gc(2)
        by (intro that[of t0 m b g])
           (auto simp: apply_dimension_mode_to_template_def setdefault_def 2 m b
              absent_or_dict_def)
    qed
  qed
qed

lemma clamp_nz_range: "\<exists>n. clamp_nz 2 v = JInt n \<and> 2 \<le> n \<and> n \<le> 10"
  by (simp add: clamp_nz_def)

lemma prepare_geometry_2d:
  assumes cells: "absent_or_dict b (U ''cells'')"
  shows "\<exists>tg tc n.
      template_section (prepare_geometry (U ''2D_extruded'') i m b g) (U ''geometry'') = Inr (JObj tg) \<and>
      template_section (prepare_geometry (U ''2D_extruded'') i m b g) (U ''cells'') = Inr (JObj tc) \<and>
      pyget tc (U ''nz'') = JInt n \<and> 2 \<le> n \<and> n \<le> 10"
  using cells
proof (cases rule: absent_or_dict_cases)
  case 1
  then show ?thesis
    by (simp add: prepare_geometry_def setdefault_def prepare_nz_def pyget_def Let_def)
next
  case (2 c)
  obtain n where n: "clamp_nz 2 (pyget c (U ''nz'')) = JInt n" "2 \<le> n" "n \<le> 10"
    using clamp_nz_range by blast
  from 2 n show ?thesis
    by (simp add: prepare_geometry_def setdefault_def prepare_nz_def Let_def)
       (simp add: pyget_def)
qed

lemma thickness_fallback_chain_number: "is_number (thickness_fallback_chain i t)"
  by (simp add: thickness_fallback_chain_def)

lemma template_dict_sectionD:
  "template_dict_section t name = Some d \<Longrightarrow> template_section t name = Inr (JObj d)"
  by (auto simp: template_dict_section_def split: sum.splits json.splits)

text \<open>
  C5, amended.  Take an intent and a template whose \<^verbatim>\<open>meshing\<close>, \<^verbatim>\<open>blockMesh\<close>,
  \<^verbatim>\<open>geometry\<close> and \<^verbatim>\<open>cells\<close> sections are objects or missing, and let the intent have
  neither a thickness nor a cell count.  Enforcement with mode \<^verbatim>\<open>2D_extruded\<close> then
  stores a numeric thickness, the one of the fallback chain (template value, else the
  intent's height, else \<^verbatim>\<open>0.002\<close>).  The cell count becomes the template's
  \<^verbatim>\<open>cells.nz\<close> when that is an integer and stays missing otherwise; no clamp is applied
  to the template's value.  It is an integer in \<open>[1, 10]\<close> whenever the template is one
  prepared by \<^verbatim>\<open>apply_dimension_mode_to_template\<close> in the same mode, as at the fast-fill
  entry point.
\<close>

theorem enforce_2d_extruded_fills_from_template:
  assumes "intent_sections_ok intent_obj"
    and "template_sections_ok template_obj"
    and "value_at intent_obj thickness_path = None"
    and "value_at intent_obj nz_path = None"
  shows "value_at (enforce_dimension_mode intent_obj (Some (U ''2D_extruded'')) template_obj)
           thickness_path = Some (thickness_fallback_chain intent_obj template_obj) \<and>
         numeric_at (enforce_dimension_mode intent_obj (Some (U ''2D_extruded'')) template_obj)
           thickness_path \<and>
         value_at (enforce_dimension_mode intent_obj (Some (U ''2D_extruded'')) template_obj)
           nz_path
           = (if is_int (template_nz template_obj) then Some (template_nz template_obj)
              else None) \<and>
         (\<forall>t0. intent_sections_ok t0 \<and>
             template_obj = apply_dimension_mode_to_template t0 (Some (U ''2D_extruded'')) \<longrightarrow>
             int_in_range_at
               (enforce_dimension_mode intent_obj (Some (U ''2D_extruded'')) template_obj)
               nz_path 1 10)"
proof -
  let ?r = "enforce_dimension_mode intent_obj (Some (U ''2D_extruded'')) template_obj"
  from assms(2) obtain tg tc
    where tg: "template_dict_section template_obj (U ''geometry'') = Some tg"
      and tc: "template_dict_section template_obj (U ''cells'') = Some tc"
    by (auto simp: template_sections_ok_def)
  from assms(1) obtain i1 m1 b1 g where w:
    "?r = enforce_geometry (U ''2D_extruded'') i1 m1 b1 g template_obj"
    "dict_get g (U ''thickness_2d_m'') = None"
    "absent_or_dict b1 (U ''cells'')"
    "\<forall>c. dict_get b1 (U ''cells'') = Some (JObj c) \<longrightarrow> dict_get c (U ''nz'') = None"
    "pyget g (U ''height_m'') = value_or_none intent_obj height_path"
    using enforce_walk[of intent_obj template_obj] assms(3,4) by metis
  note eg = enforce_geometry_2d[OF template_dict_sectionD[OF tg] template_dict_sectionD[OF tc]
      w(2,3,4), of i1 m1]
  have th: "value_at ?r thickness_path = Some (thickness_fallback_chain intent_obj template_obj)"
    using eg(1) w(1,5)
    by (simp add: thickness_fallback_chain_def template_thickness_def tg Let_def)
  have nz: "value_at ?r nz_path
      = (if is_int (template_nz template_obj) then Some (template_nz template_obj) else None)"
    using eg(2) w(1) by (simp add: template_nz_def tc)
  have rng: "int_in_range_at ?r nz_path 1 10"
    if "intent_sections_ok t0"
      and "template_obj = apply_dimension_mode_to_template t0 (Some (U ''2D_extruded''))" for t0
  proof -
    from that(1) obtain j1 n1 c1 h where
      "apply_dimension_mode_to_template t0 (Some (U ''2D_extruded''))
         = prepare_geometry (U ''2D_extruded'') j1 n1 c1 h"
      "absent_or_dict c1 (U ''cells'')"
      using apply_walk by blast
    with prepare_geometry_2d[of c1 j1 n1 h] that(2) obtain tc' n
      where "template_section template_obj (U ''cells'') = Inr (JObj tc')"
        "pyget tc' (U ''nz'') = JInt n" "2 \<le> n" "n \<le> 10"
      by auto
    then have "template_nz template_obj = JInt n"
      by (simp add: template_nz_def template_dict_section_def)
    with nz \<open>2 \<le> n\<close> \<open>n \<le> 10\<close> show ?thesis
      by (simp add: int_in_range_at_def)
  qed
  from th nz rng show ?thesis
    by (simp add: numeric_at_def thickness_fallback_chain_number)
qed


lemmas dim_eval =
  enforce_dimension_mode_def enforce_geometry_def enforce_thickness_def enforce_nz_def
  apply_dimension_mode_to_template_def prepare_geometry_def prepare_thickness_def prepare_nz_def
  setdefault_def template_section_def pyget_def clamp_nz_def commit_def
  intent_sections_ok_def template_sections_ok_def template_dict_section_def absent_or_dict_def
  thickness_path_def nz_path_def numeric_at_def int_in_range_at_def Let_def

text \<open>
  C5, as stated (for every intent and template the cell count ends up an integer in
  \<open>[1, 10]\<close>), fails twice over.  With the empty intent and the empty template no
  \<^verbatim>\<open>nz\<close> is written at all; with a template whose \<^verbatim>\<open>cells.nz\<close> is 50 the intent gets
  50, since only an \<^verbatim>\<open>nz\<close> already in the intent is clamped.
\<close>

theorem enforce_2d_extruded_counterexample:
  "value_at [] thickness_path = None \<and> value_at [] nz_path = None \<and>
   value_at (enforce_dimension_mode [] (Some (U ''2D_extruded'')) []) nz_path = None \<and>
   \<not> int_in_range_at (enforce_dimension_mode [] (Some (U ''2D_extruded'')) []) nz_path 1 10 \<and>
   value_at
     (enforce_dimension_mode [] (Some (U ''2D_extruded''))
        [(U ''meshing'', JObj [(U ''blockMesh'', JObj [(U ''cells'', JObj [(U ''nz'', JInt 50)])])])])
     nz_path = Some (JInt 50) \<and>
   \<not> int_in_range_at
     (enforce_dimension_mode [] (Some (U ''2D_extruded''))
        [(U ''meshing'', JObj [(U ''blockMesh'', JObj [(U ''cells'', JObj [(U ''nz'', JInt 50)])])])])
     nz_path 1 10"
  by (simp add: dim_eval)

theorem enforce_2d_extruded_fills_from_template_witness:
  "intent_sections_ok [] \<and>
   template_sections_ok
     [(U ''meshing'', JObj [(U ''blockMesh'', JObj [(U ''cells'', JObj [(U ''nz'', JInt 6)])])])] \<and>
   value_at [] thickness_path = None \<and> value_at [] nz_path = None \<and>
   numeric_at
     (enforce_dimension_mode [] (Some (U ''2D_extruded''))
        [(U ''meshing'', JObj [(U ''blockMesh'', JObj [(U ''cells'', JObj [(U ''nz'', JInt 6)])])])])
     thickness_path \<and>
   value_at
     (enforce_dimension_mode [] (Some (U ''2D_extruded''))
        [(U ''meshing'', JObj [(U ''blockMesh'', JObj [(U ''cells'', JObj [(U ''nz'', JInt 6)])])])])
     nz_path = Some (JInt 6) \<and>
   template_sections_ok (apply_dimension_mode_to_template [] (Some (U ''2D_extruded''))) \<and>
   int_in_range_at
     (enforce_dimension_mode [] (Some (U ''2D_extruded''))
        (apply_dimension_mode_to_template [] (Some (U ''2D_extruded''))))
     nz_path 1 10"
proof -
  let ?t = "[(U ''meshing'', JObj [(U ''blockMesh'', JObj [(U ''cells'', JObj [(U ''nz'', JInt 6)])])])]"
  let ?p = "apply_dimension_mode_to_template [] (Some (U ''2D_extruded''))"
  have i: "intent_sections_ok []" by (simp add: intent_sections_ok_def)
  have t: "template_sections_ok ?t" by (simp add: dim_eval)
  have p: "template_sections_ok ?p" by (simp add: dim_eval)
  have a: "value_at [] thickness_path = None" "value_at [] nz_path = None"
    by (simp_all add: thickness_path_def nz_path_def)
  have nz: "template_nz ?t = JInt 6" by (simp add: template_nz_def dim_eval)
  from enforce_2d_extruded_fills_from_template[OF i t a]
       enforce_2d_extruded_fills_from_template[OF i p a] i t p a nz
  show ?thesis by simp
qed

section \<open>Properties of the missing-parameter normalisation\<close>











section \<open>Properties of schema validation\<close>







section \<open>Properties of the pipeline\<close>

lemma utf8_str_simps [simp]:
  "utf8_str []"
  "utf8_str (c # s) \<longleftrightarrow> \<not> lone_surrogate c \<and> utf8_str s"
  "utf8_str (s @ t) \<longleftrightarrow> utf8_str s \<and> utf8_str t"
  by (auto simp: utf8_str_def)

lemma utf8_str_U [simp]: "utf8_str (U s)"
proof -
  have "\<not> lone_surrogate (of_char c)" for c :: char
    using nat_of_char_less_256[of c] unfolding lone_surrogate_def by linarith
  then show ?thesis by (induction s) (simp_all add: U_def)
qed

lemma send_json_Response: "send_json c r = Response r' \<longleftrightarrow> encodable c \<and> r' = r"
  by (auto simp: send_json_def JSONResponse_def encodable_def)



lemma send_fill_Response:
  "send_fill r = Response r' \<longleftrightarrow> encodable (fill_content r) \<and> r' = r"
  by (simp add: send_fill_def send_json_Response)




lemma reply_after_summary_Response:
  "reply_after_summary sm response calls = (Response r', calls') \<longleftrightarrow>
     (\<exists>t. sm = Inr t \<and> encodable (fill_content (response t)) \<and> r' = response t) \<and> calls' = calls"
  by (cases sm) (auto simp: reply_after_summary_def send_fill_Response)

lemma fill_reply_simps [simp]:
  "resp_intent (fill_reply req st fi rp ps t) = fi"
  "resp_review (fill_reply req st fi rp ps t) = rp"
  "resp_pipeline_status (fill_reply req st fi rp ps t) = ps"
  "resp_missing_parameters (fill_reply req st fi rp ps t) = []"
  "resp_human_summary (fill_reply req st fi rp ps t) = t"
  by (simp_all add: fill_reply_def)

lemma valid_flag [simp]:
  "truthy (pyget (format_schema_errors errors) (U ''valid'')) \<longleftrightarrow> errors = []"
  "truthy (get_or (format_schema_errors errors) (U ''valid'') (JBool False)) \<longleftrightarrow> errors = []"
  by (simp_all add: format_schema_errors_def pyget_def get_or_def Let_def)

lemma summary_of_invalid [simp]:
  "errors \<noteq> [] \<Longrightarrow>
     build_multilayer_summary e (format_schema_errors errors) sf rv fi ps
       = Inr (multilayer_summary_text e (format_schema_errors errors) sf rv fi ps)"
  by (simp add: build_multilayer_summary_def)

lemma summary_of_valid [simp]:
  "build_multilayer_summary e (format_schema_errors []) sf rv fi ps
     = exn_bind (summarize_intent fi)
         (\<lambda>u. Inr (multilayer_summary_text e (format_schema_errors []) sf rv fi ps))"
  by (simp add: build_multilayer_summary_def)

lemma collect_stage_calls:
  "collect_stage e req meta schema t = Inr st \<Longrightarrow>
     st_calls st = [CollectorCall t] \<and> st_meta st = meta \<and> st_schema st = schema \<and>
     dict_get (st_final_intent st) (U ''profile'') = Some (JStr (meta_profile meta))"
  by (auto simp: collect_stage_def Let_def force_profile_def split: sum.splits if_splits)

lemma collect_stage_ended:
  "collect_stage e req meta schema t = Inl (Response r, calls) \<Longrightarrow>
     calls = [CollectorCall t] \<and> resp_pipeline_status r = U ''needs_parameters'' \<and>
     dict_get (resp_intent r) (U ''profile'') = Some (JStr (meta_profile meta))"
  by (auto simp: collect_stage_def Let_def force_profile_def send_fill_Response
      split: sum.splits if_splits)

lemma fill_setup_meta:
  "fill_setup e req = Inr (meta, schema, t) \<Longrightarrow> PROFILE_REGISTRY (profile_slug req) = Some meta"
  by (auto simp: fill_setup_def split: option.splits sum.splits)

lemma fill_setup_no_response: "fill_setup e req \<noteq> Inl (Response r)"
  by (auto simp: fill_setup_def load_or_fail_def split: option.splits sum.splits exn.splits if_splits)

lemma fill_collect_state:
  assumes "fill_collect e req = Inr st"
  shows "reviewer_never_invoked (st_calls st)"
    and "PROFILE_REGISTRY (profile_slug req) = Some (st_meta st)"
    and "dict_get (st_final_intent st) (U ''profile'') = Some (JStr (meta_profile (st_meta st)))"
proof -
  from assms obtain meta schema t where su: "fill_setup e req = Inr (meta, schema, t)"
    by (auto simp: fill_collect_def split: sum.splits)
  show "reviewer_never_invoked (st_calls st)"
    using assms su collect_stage_calls[of e req meta schema t st]
    by (auto simp: fill_collect_def reviewer_never_invoked_def split: option.splits)
  show "PROFILE_REGISTRY (profile_slug req) = Some (st_meta st)"
    using assms su collect_stage_calls[of e req meta schema t st] fill_setup_meta[OF su]
    by (auto simp: fill_collect_def split: option.splits)
  show "dict_get (st_final_intent st) (U ''profile'') = Some (JStr (meta_profile (st_meta st)))"
    using assms su collect_stage_calls[of e req meta schema t st]
    by (auto simp: fill_collect_def force_profile_def split: option.splits)
qed

lemma fill_collect_ended:
  assumes "fill_collect e req = Inl (Response r, calls)"
  shows "reviewer_never_invoked calls \<and> resp_pipeline_status r = U ''needs_parameters'' \<and>
         (\<exists>meta. PROFILE_REGISTRY (profile_slug req) = Some meta \<and>
            dict_get (resp_intent r) (U ''profile'') = Some (JStr (meta_profile meta)))"
proof (cases "fill_setup e req")
  case (Inl a)
  with assms show ?thesis
    using fill_setup_no_response[of e req r] by (auto simp: fill_collect_def)
next
  case (Inr b)
  then obtain meta schema t where su: "fill_setup e req = Inr (meta, schema, t)"
    by (cases b) auto
  with assms have "collect_stage e req meta schema t = Inl (Response r, calls)"
    by (auto simp: fill_collect_def split: option.splits)
  from collect_stage_ended[OF this] fill_setup_meta[OF su] show ?thesis
    by (auto simp: reviewer_never_invoked_def)
qed

lemma force_profile_get [simp]:
  "dict_get (force_profile meta d) (U ''profile'') = Some (JStr (meta_profile meta))"
  by (simp add: force_profile_def)

lemma after_review_response:
  assumes "after_review e req st si raw calls = (Response r, calls')"
  shows "calls' = calls"
    and "dict_get (resp_intent r) (U ''profile'') = Some (JStr (meta_profile (st_meta st)))"
    and "resp_pipeline_status r = U ''ok'' \<or> resp_pipeline_status r = U ''schema_regression''"
  using assms
  by (auto simp: after_review_def Let_def reply_after_summary_Response
      split: sum.splits if_splits)

lemma validate_and_review_response:
  assumes "validate_and_review e req st = (Response r, calls)"
  shows "(resp_pipeline_status r = U ''schema_failed'' \<and> calls = st_calls st \<and>
          resp_intent r = st_final_intent st) \<or>
         (calls = st_calls st @ [ReviewerCall (st_final_intent st)] \<and>
          ((resp_pipeline_status r = U ''reasoner_failed'' \<and> resp_intent r = st_final_intent st) \<or>
           ((resp_pipeline_status r = U ''ok'' \<or> resp_pipeline_status r = U ''schema_regression'') \<and>
            dict_get (resp_intent r) (U ''profile'') = Some (JStr (meta_profile (st_meta st))))))"
proof (cases "schema_validate (validator_errors e) (st_final_intent st) (st_schema st)")
  case (Inl ex)
  with assms show ?thesis by (simp add: validate_and_review_def)
next
  case (Inr errors)
  show ?thesis
  proof (cases "errors = []")
    case False
    with assms Inr show ?thesis
      by (auto simp: validate_and_review_def Let_def reply_after_summary_Response)
  next
    case True
    show ?thesis
    proof (cases "call_reasoner_review e (st_final_intent st) (st_meta st) (st_schema st)")
      case (Inl msg)
      with assms Inr True show ?thesis
        by (auto simp: validate_and_review_def Let_def reply_after_summary_Response)
    next
      case (Inr raw)
      with assms \<open>schema_validate _ _ _ = Inr errors\<close> True
      have "after_review e req st (format_schema_errors []) raw
              (st_calls st @ [ReviewerCall (st_final_intent st)]) = (Response r, calls)"
        by (simp add: validate_and_review_def Let_def)
      from after_review_response[OF this] show ?thesis by auto
    qed
  qed
qed







lemma dict_get_commit_other:
  "k \<noteq> U ''meshing'' \<Longrightarrow> dict_get (commit i m b) k = dict_get i k"
  by (simp add: commit_def)

lemma dict_get_setdefault_other:
  "k \<noteq> k' \<Longrightarrow> dict_get (snd (setdefault d k' v)) k = dict_get d k"
  by (simp add: setdefault_def split: option.splits)

lemma enforce_geometry_other_key:
  "k \<noteq> U ''meshing'' \<Longrightarrow> dict_get (enforce_geometry mode i m b g t) k = dict_get i k"
  by (simp add: enforce_geometry_def Let_def dict_get_commit_other
      split: sum.splits prod.splits)

lemma enforce_dimension_mode_other_key:
  assumes "k \<noteq> U ''meshing''"
  shows "dict_get (enforce_dimension_mode i dm t) k = dict_get i k"
proof (cases "normalize_dimension_mode dm")
  case None
  then show ?thesis by (simp add: enforce_dimension_mode_def)
next
  case (Some mode)
  obtain mv i1 where s1: "setdefault i (U ''meshing'') (JObj []) = (mv, i1)"
    by (cases "setdefault i (U ''meshing'') (JObj [])")
  have i1: "dict_get i1 k = dict_get i k"
    using dict_get_setdefault_other[OF assms, of i "JObj []"] s1 by simp
  show ?thesis
  proof (cases mv)
    case (JObj m)
    obtain bv m1 where s2: "setdefault m (U ''blockMesh'') (JObj []) = (bv, m1)"
      by (cases "setdefault m (U ''blockMesh'') (JObj [])")
    show ?thesis
    proof (cases bv)
      case bj: (JObj b)
      obtain gv b1 where s3: "setdefault b (U ''geometry'') (JObj []) = (gv, b1)"
        by (cases "setdefault b (U ''geometry'') (JObj [])")
      show ?thesis
        using assms i1
        by (cases gv)
           (simp_all add: enforce_dimension_mode_def Some s1 JObj s2 bj s3
              enforce_geometry_other_key dict_get_commit_other)
    qed (use assms i1 in \<open>simp_all add: enforce_dimension_mode_def Some s1 JObj s2\<close>)
  qed (use i1 in \<open>simp_all add: enforce_dimension_mode_def Some s1\<close>)
qed

lemma merge_job_meta_other_key:
  "k \<noteq> U ''job_meta'' \<Longrightarrow> dict_get (merge_job_meta jm i) k = dict_get i k"
  by (simp add: merge_job_meta_def Let_def split: option.splits)

lemma intent_fill_fast_profile:
  assumes "intent_fill_fast e req = Response r"
  shows "\<exists>meta. PROFILE_REGISTRY (ff_profile_slug req) = Some meta \<and>
           dict_get (ffr_intent r) (U ''profile'') = Some (JStr (meta_profile meta))"
  using assms
  by (auto simp: intent_fill_fast_def Let_def load_or_fail_def send_json_Response
        enforce_dimension_mode_other_key merge_job_meta_other_key
      split: option.splits sum.splits json.splits exn.splits)

lemma save_to_storage_profile:
  assumes "save_intent_with_job_directory e files i = (Inr saved, files')"
  shows "dict_get (sr_intent saved) (U ''profile'') = dict_get i (U ''profile'') \<and>
         files' (sr_job_id saved) = Some (sr_intent saved)"
  using assms
  by (auto simp: save_intent_with_job_directory_def Let_def split: if_splits)

lemma load_or_fail_no_response [simp]: "load_or_fail e p \<noteq> Inl (Response r)"
  by (simp add: load_or_fail_def split: sum.splits exn.splits)

lemma resolve_profile_no_response [simp]: "resolve_profile s i \<noteq> Inl (Response r)"
  by (simp add: resolve_profile_def Let_def split: option.splits json.splits list.splits)

lemma send_invalid_no_response [simp]: "send_invalid issues \<noteq> Response r"
  by (simp add: send_invalid_def split: sum.splits)

lemma intent_save_profile:
  assumes "intent_save e files req = (Response r, files')"
  shows "\<exists>meta slug. resolve_profile (sv_profile_slug req) (sv_intent req) = Inr (meta, slug) \<and>
           dict_get (svr_intent r) (U ''profile'') = Some (JStr (meta_profile meta)) \<and>
           files' (svr_job_id r) = Some (svr_intent r)"
proof -
  from assms obtain meta slug schema saved where
    rp: "resolve_profile (sv_profile_slug req) (sv_intent req) = Inr (meta, slug)"
    and sv: "save_intent_with_job_directory e files
        (merge_job_meta (sv_job_meta req) (force_profile meta (deep_copy_json (sv_intent req))))
        = (Inr saved, files')"
    and r: "svr_intent r = sr_intent saved" "svr_job_id r = sr_job_id saved"
    by (auto simp: intent_save_def Let_def send_json_Response
        split: sum.splits prod.splits if_splits)
  from save_to_storage_profile[OF sv] rp r show ?thesis
    by (simp add: merge_job_meta_other_key)
qed

lemma intent_fill_profile:
  assumes a: "intent_fill e req = (Response r, calls)"
  shows "\<exists>meta. PROFILE_REGISTRY (profile_slug req) = Some meta \<and>
           dict_get (resp_intent r) (U ''profile'') = Some (JStr (meta_profile meta))"
proof (cases "fill_collect e req")
  case (Inl ended)
  with a fill_collect_ended[of e req r calls] show ?thesis
    by (simp add: intent_fill_def)
next
  case (Inr st)
  with a have "validate_and_review e req st = (Response r, calls)"
    by (simp add: intent_fill_def)
  from validate_and_review_response[OF this] fill_collect_state(2,3)[OF Inr]
  show ?thesis by auto
qed

lemma U_Nil_iff [simp]: "U s = [] \<longleftrightarrow> s = []"
  by (simp add: U_def)

lemma pyget_simps [simp]:
  "pyget [] k = JNull"
  "pyget ((k', v) # d) k = (if k' = k then v else pyget d k)"
  by (simp_all add: pyget_def)

lemma paths_differ [simp]:
  "meta_template openfoam_bmesh_v1 \<noteq> meta_schema openfoam_bmesh_v1"
  by (simp add: openfoam_bmesh_v1_def)

lemma registry_demo [simp]:
  "PROFILE_REGISTRY (U ''coolingplate-openfoam-bmesh-v1'') = Some openfoam_bmesh_v1"
  by (simp add: PROFILE_REGISTRY_def)



lemmas fill_eval =
  fill_collect_def fill_setup_def collect_stage_def load_or_fail_def force_profile_def
  merge_with_template_def normalize_missing_parameters_def pyget_def str_or_empty_def
  py_strip_def Let_def demo_request_def demo_env_def demo_template_def openfoam_bmesh_v1_def
  PROFILE_REGISTRY_def

lemmas send_eval =
  send_fill_def send_json_def JSONResponse_def fill_content_def fill_reply_def
  format_schema_errors_def format_issue_def if_nonempty_def json_of_option_def

lemma collect_demo:
  "fill_collect demo_env demo_request = Inr demo_state"
  "fill_collect env_review_timeout demo_request = Inr demo_state"
  "fill_collect env_review_regression demo_request = Inr demo_state"
  "fill_collect env_review_malformed demo_request = Inr demo_state"
  by (simp_all add: fill_eval demo_state_def env_review_timeout_def env_review_regression_def
      env_review_malformed_def)


lemma validate_demo:
  "schema_validate demo_validator demo_template demo_schema = Inr []"
  "schema_validate demo_validator odd_intent demo_schema = Inr []"
  by (simp_all add: schema_validate_def demo_validator_def demo_template_def odd_intent_def)


lemmas summary_eval =
  summarize_intent_def summarize_mesh_def summarize_conditions_def summarize_heat_def
  summarize_material_def summarize_accuracy_def summarize_openfoam_def
  summarize_deliverables_def first_port_def first_item_def need_dict_def join_check_def
  get_or_def or_else_def exn_bind_def starts_with_def pyget_def Let_def

lemma summary_demo: "summarize_intent demo_template = Inr ()"
  by (simp add: summary_eval demo_template_def)


lemma env_fields [simp]:
  "validator_errors env_review_timeout = demo_validator"
  "validator_errors env_review_malformed = demo_validator"
  "validator_errors env_review_regression = demo_validator"
  "validator_errors demo_env = demo_validator"
  "validator_errors env_review_empty = demo_validator"
  "multilayer_summary_text env_review_empty = (\<lambda>si sf review intent_obj status. U ''[multilayer check]'')"
  "call_reasoner_review env_review_timeout = (\<lambda>i m s. Inl (U ''timeout''))"
  "call_reasoner_review env_review_malformed = (\<lambda>i m s. Inl (U ''not JSON: '' @ [55296]))"
  "multilayer_summary_text env_review_timeout = (\<lambda>si sf review intent_obj status. U ''[multilayer check]'')"
  "multilayer_summary_text env_review_malformed = (\<lambda>si sf review intent_obj status. U ''[multilayer check]'')"
  "multilayer_summary_text demo_env = (\<lambda>si sf review intent_obj status. U ''[multilayer check]'')"
  by (simp_all add: env_review_timeout_def env_review_malformed_def env_review_regression_def
      env_review_empty_def demo_env_def)

lemma demo_template_encodable [simp]:
  "list_all (\<lambda>kv. finite_floats (snd kv)) demo_template"
  "list_all (\<lambda>kv. utf8_str (fst kv) \<and> utf8_text (snd kv)) demo_template"
  by (simp_all add: demo_template_def)

lemma demo_strings [simp]:
  "utf8_str (profile_slug demo_request)"
  "utf8_str (profile_slug request_with_bad_intent)"
  "utf8_str (profile_slug request_with_forged_profile)"
  "utf8_str (meta_family openfoam_bmesh_v1)"
  by (simp_all add: demo_request_def request_with_bad_intent_def
      request_with_forged_profile_def openfoam_bmesh_v1_def)











text \<open>
  What the pipeline does with a regressed intent when its summary can be built: the
  status is \<^verbatim>\<open>schema_regression\<close>, and the response, which is returned when it can be
  encoded, holds the reviewer's intent with the profile forced.
\<close>

lemma regression_returned_when_summary_renders:
  assumes "fill_collect e req = Inr st"
    and "schema_validate (validator_errors e) (st_final_intent st) (st_schema st) = Inr []"
    and "call_reasoner_review e (st_final_intent st) (st_meta st) (st_schema st)
           = Inr (JObj raw)"
    and "pyget raw (U ''updated_intent'') = JObj u"
    and "schema_validate (validator_errors e) (force_profile (st_meta st) u) (st_schema st)
           = Inr errors"
    and "errors \<noteq> []"
    and "summarize_intent (force_profile (st_meta st) u) = Inr ()"
  shows "\<exists>r. intent_fill e req = (send_fill r, st_calls st @ [ReviewerCall (st_final_intent st)]) \<and>
           resp_pipeline_status r = U ''schema_regression'' \<and>
           resp_intent r = force_profile (st_meta st) u"
  using assms
  apply (simp add: intent_fill_def validate_and_review_def after_review_def Let_def
      reply_after_summary_def exn_bind_def)
  apply (rule exI, rule conjI, rule refl)
  apply simp
  done

text \<open>
  C4: what the code does at the failing input.  The reviewer returns an updated intent
  whose \<^verbatim>\<open>operating_conditions\<close> is a string; the final validation fails, and then the
  summary raises \<^verbatim>\<open>AttributeError\<close> on that intent.  The request ends with the uncaught
  exception, after the reviewer call, and no response carries the regressed intent.
\<close>

theorem regression_summary_crash:
  "intent_fill env_review_regression demo_request
     = (Crash AttributeError, [CollectorCall demo_template, ReviewerCall demo_template])"
proof -
  have c: "call_reasoner_review env_review_regression demo_template openfoam_bmesh_v1 demo_schema
      = Inr (JObj [(U ''updated_intent'', JObj [(U ''operating_conditions'', JStr (U ''x''))])])"
    by (simp add: env_review_regression_def demo_env_def)
  have f: "force_profile openfoam_bmesh_v1 [(U ''operating_conditions'', JStr (U ''x''))]
      = [(U ''operating_conditions'', JStr (U ''x'')),
         (U ''profile'', JStr (U ''CoolingPlate-OF-Intent@blockMesh_v1.0''))]"
    by (simp add: force_profile_def openfoam_bmesh_v1_def)
  have s: "summarize_intent [(U ''operating_conditions'', JStr (U ''x'')),
         (U ''profile'', JStr (U ''CoolingPlate-OF-Intent@blockMesh_v1.0''))] = Inl AttributeError"
    by (simp add: summary_eval)
  have vb: "schema_validate demo_validator [(U ''operating_conditions'', JStr (U ''x'')),
         (U ''profile'', JStr (U ''CoolingPlate-OF-Intent@blockMesh_v1.0''))] demo_schema
     = Inr [\<lparr>err_path = [Key (U ''operating_conditions'')],
             err_message = U ''value is not of type object''\<rparr>]"
    by (simp add: schema_validate_def demo_validator_def)
  show ?thesis
    by (simp add: intent_fill_def collect_demo validate_and_review_def after_review_def
        demo_state_def c validate_demo f vb s reply_after_summary_def exn_bind_def Let_def)
qed

text \<open>
  C8.  Whenever the full-fill, the fast-fill or the save entry point answers with an
  intent, that intent carries in \<^verbatim>\<open>profile\<close> the registry's identifier of the profile the
  request resolved to, whatever the client or a generation service supplied; at the
  save entry point the document written for the job is the returned intent.
\<close>

theorem profile_forced_at_entry_points:
  "(\<forall>r calls. intent_fill e req = (Response r, calls) \<longrightarrow>
      (\<exists>meta. PROFILE_REGISTRY (profile_slug req) = Some meta \<and>
         dict_get (resp_intent r) (U ''profile'') = Some (JStr (meta_profile meta)))) \<and>
   (\<forall>r. intent_fill_fast e freq = Response r \<longrightarrow>
      (\<exists>meta. PROFILE_REGISTRY (ff_profile_slug freq) = Some meta \<and>
         dict_get (ffr_intent r) (U ''profile'') = Some (JStr (meta_profile meta)))) \<and>
   (\<forall>r files'. intent_save e files sreq = (Response r, files') \<longrightarrow>
      (\<exists>meta slug. resolve_profile (sv_profile_slug sreq) (sv_intent sreq) = Inr (meta, slug) \<and>
         dict_get (svr_intent r) (U ''profile'') = Some (JStr (meta_profile meta)) \<and>
         files' (svr_job_id r) = Some (svr_intent r)))"
  using intent_fill_profile[of e req] intent_fill_fast_profile[of e freq]
    intent_save_profile[of e files sreq]
  by blast

lemma full_fill_forged_profile_response:
  "\<exists>r calls. intent_fill env_review_timeout request_with_forged_profile = (Response r, calls)"
proof -
  have fc: "fill_collect env_review_timeout request_with_forged_profile
      = Inr (demo_state\<lparr>st_calls := []\<rparr>)"
    by (simp add: fill_eval demo_state_def env_review_timeout_def
        request_with_forged_profile_def)
  show ?thesis
    by (simp add: intent_fill_def fc validate_and_review_def demo_state_def validate_demo
        summary_demo reply_after_summary_def build_multilayer_summary_def get_or_def
        exn_bind_def Let_def send_eval)
qed

lemma fast_fill_demo_response:
  "\<exists>r. intent_fill_fast demo_env demo_fast_request = Response r"
  by (simp add: intent_fill_fast_def demo_env_def demo_fast_request_def load_or_fail_def
      demo_template_def force_profile_def merge_with_template_def merge_job_meta_def
      dim_eval openfoam_bmesh_v1_def send_json_def JSONResponse_def fill_fast_content_def
      coerce_string_list_def)

lemma save_demo_response:
  "\<exists>r files'. intent_save demo_env Map.empty demo_save_request = (Response r, files') \<and>
     svr_job_id r = U ''My-Job-1''"
proof -
  have rp: "resolve_profile (sv_profile_slug demo_save_request) (sv_intent demo_save_request)
      = Inr (openfoam_bmesh_v1, U ''coolingplate-openfoam-bmesh-v1'')"
    by (simp add: resolve_profile_def demo_save_request_def)
  have i: "merge_job_meta (sv_job_meta demo_save_request)
             (force_profile openfoam_bmesh_v1 (sv_intent demo_save_request))
      = [(U ''profile'', JStr (U ''CoolingPlate-OF-Intent@blockMesh_v1.0'')),
         (U ''operating_conditions'', JObj []),
         (U ''job_meta'', JObj [(U ''job_id'', JStr (U ''My Job/1''))])]"
    by (simp add: merge_job_meta_def force_profile_def demo_save_request_def dict_update_def
        openfoam_bmesh_v1_def)
  have v: "schema_validate demo_validator
       [(U ''profile'', JStr (U ''CoolingPlate-OF-Intent@blockMesh_v1.0'')),
         (U ''operating_conditions'', JObj []),
         (U ''job_meta'', JObj [(U ''job_id'', JStr (U ''My Job/1''))])] demo_schema = Inr []"
    by (simp add: schema_validate_def demo_validator_def)
  have j: "normalize_job_id demo_env (JStr (U ''My Job/1'')) = U ''My-Job-1''"
    by (simp add: normalize_job_id_def str_or_empty_def py_strip_def strip_dashes_def
        safe_char_def is_space_def demo_env_def U_def Let_def)
  have l: "load_or_fail demo_env (meta_schema openfoam_bmesh_v1) = Inr demo_schema"
    by (simp add: load_or_fail_def demo_env_def)
  show ?thesis
    by (simp add: intent_save_def rp l i v save_intent_with_job_directory_def j Let_def
        send_json_def JSONResponse_def save_content_def)
       (simp add: demo_env_def demo_save_request_def)
qed

theorem profile_forced_at_entry_points_witness:
  "(\<exists>r calls. intent_fill env_review_timeout request_with_forged_profile = (Response r, calls) \<and>
      dict_get (resp_intent r) (U ''profile'')
        = Some (JStr (U ''CoolingPlate-OF-Intent@blockMesh_v1.0''))) \<and>
   (\<exists>r. intent_fill_fast demo_env demo_fast_request = Response r \<and>
      dict_get (ffr_intent r) (U ''profile'')
        = Some (JStr (U ''CoolingPlate-OF-Intent@blockMesh_v1.0''))) \<and>
   (\<exists>r files'. intent_save demo_env Map.empty demo_save_request = (Response r, files') \<and>
      svr_job_id r = U ''My-Job-1'' \<and>
      dict_get (svr_intent r) (U ''profile'')
        = Some (JStr (U ''CoolingPlate-OF-Intent@blockMesh_v1.0'')) \<and>
      files' (U ''My-Job-1'') = Some (svr_intent r))"
proof -
  note t = profile_forced_at_entry_points
    [where e = env_review_timeout and req = request_with_forged_profile]
  note t' = profile_forced_at_entry_points
    [where e = demo_env and freq = demo_fast_request and files = Map.empty
       and sreq = demo_save_request]
  have p: "meta_profile openfoam_bmesh_v1 = U ''CoolingPlate-OF-Intent@blockMesh_v1.0''"
    by (simp add: openfoam_bmesh_v1_def)
  have s1: "profile_slug request_with_forged_profile = U ''coolingplate-openfoam-bmesh-v1''"
    by (simp add: request_with_forged_profile_def demo_request_def)
  have s2: "ff_profile_slug demo_fast_request = U ''coolingplate-openfoam-bmesh-v1''"
    by (simp add: demo_fast_request_def)
  have s3: "resolve_profile (sv_profile_slug demo_save_request) (sv_intent demo_save_request)
      = Inr (openfoam_bmesh_v1, U ''coolingplate-openfoam-bmesh-v1'')"
    by (simp add: resolve_profile_def demo_save_request_def)
  from full_fill_forged_profile_response obtain r1 c1
    where r1: "intent_fill env_review_timeout request_with_forged_profile = (Response r1, c1)"
    by blast
  from t[THEN conjunct1, rule_format, OF r1] s1 p
  have a: "dict_get (resp_intent r1) (U ''profile'')
        = Some (JStr (U ''CoolingPlate-OF-Intent@blockMesh_v1.0''))"
    by auto
  from fast_fill_demo_response obtain r2
    where r2: "intent_fill_fast demo_env demo_fast_request = Response r2"
    by blast
  from t'[THEN conjunct2, THEN conjunct1, rule_format, OF r2] s2 p
  have b: "dict_get (ffr_intent r2) (U ''profile'')
        = Some (JStr (U ''CoolingPlate-OF-Intent@blockMesh_v1.0''))"
    by auto
  from save_demo_response obtain r3 f3
    where r3: "intent_save demo_env Map.empty demo_save_request = (Response r3, f3)"
      "svr_job_id r3 = U ''My-Job-1''"
    by blast
  from t'[THEN conjunct2, THEN conjunct2, rule_format, OF r3(1)] s3 p r3(2)
  have c: "dict_get (svr_intent r3) (U ''profile'')
        = Some (JStr (U ''CoolingPlate-OF-Intent@blockMesh_v1.0''))"
      "f3 (U ''My-Job-1'') = Some (svr_intent r3)"
    by auto
  from r1 a r2 b r3 c show ?thesis by blast
qed

end
